theory Spec2Isabelle
  imports Complex_Main "HOL-Library.AList" "HOL-Library.Monad_Syntax" "HOL-Library.Sublist"
begin

section \<open>JavaScript values\<close>

text \<open>
  The driver receives entity announcements, state payloads and emitted errors as values of
  TypeScript type \<open>unknown\<close>. They are modelled by a datatype of JavaScript values.
  A number is carried around and tested for its type only, never computed with.
  An object has an identity (its address), a class that decides
  \<^verbatim>\<open>instanceof Connection\<close>, and the properties that a property read or the
  \<^verbatim>\<open>in\<close> operator sees (own and inherited alike). A function is opaque.
\<close>

datatype jsnumber = Finite real | NaN | PosInfinity | NegInfinity

datatype jsclass = PlainObject | ConnectionInstance

datatype jsval =
    JUndefined
  | JNull
  | JBool bool
  | JNum jsnumber
  | JStr string
  | JFun
  | JArr "jsval list"
  | JObj nat jsclass "(string \<times> jsval) list"

text \<open>The \<^verbatim>\<open>typeof\<close> operator.\<close>

fun typeof :: "jsval \<Rightarrow> string" where
  "typeof JUndefined = ''undefined''"
| "typeof JNull = ''object''"
| "typeof (JBool b) = ''boolean''"
| "typeof (JNum n) = ''number''"
| "typeof (JStr s) = ''string''"
| "typeof JFun = ''function''"
| "typeof (JArr xs) = ''object''"
| "typeof (JObj a c ps) = ''object''"

text \<open>The \<^verbatim>\<open>in\<close> operator, applied to a value already known to be a non-null object.\<close>

fun has_prop :: "string \<Rightarrow> jsval \<Rightarrow> bool" where
  "has_prop k (JObj a c ps) = (k \<in> fst ` set ps)"
| "has_prop k v = False"

text \<open>
  A property read \<^verbatim>\<open>v?.k\<close>: \<^verbatim>\<open>undefined\<close> on \<^verbatim>\<open>null\<close> and
  \<^verbatim>\<open>undefined\<close> (optional chaining), on a primitive and for a missing key.
\<close>

fun get_prop :: "jsval \<Rightarrow> string \<Rightarrow> jsval" where
  "get_prop (JObj a c ps) k = (case map_of ps k of Some v \<Rightarrow> v | None \<Rightarrow> JUndefined)"
| "get_prop v k = JUndefined"

text \<open>\<^verbatim>\<open>v instanceof Connection\<close>.\<close>

fun instanceof_Connection :: "jsval \<Rightarrow> bool" where
  "instanceof_Connection (JObj a c ps) = (c = ConnectionInstance)"
| "instanceof_Connection v = False"

text \<open>JavaScript truthiness, as tested by \<^verbatim>\<open>!v\<close>.\<close>

fun truthy :: "jsval \<Rightarrow> bool" where
  "truthy JUndefined = False"
| "truthy JNull = False"
| "truthy (JBool b) = b"
| "truthy (JNum n) = (n \<noteq> NaN \<and> n \<noteq> Finite 0)"
| "truthy (JStr s) = (s \<noteq> [])"
| "truthy v = True"

text \<open>
  A value that was thrown or emitted as an error: an instance of \<^verbatim>\<open>Error\<close> with its
  message, or any other value, given by what \<^verbatim>\<open>String\<close> renders it as.
\<close>

datatype thrown = ErrorInstance string | OtherThrown string

section \<open>String helpers\<close>

primrec startsWith :: "string \<Rightarrow> string \<Rightarrow> bool" where
  "startsWith s [] = True"
| "startsWith s (c # cs) = (case s of [] \<Rightarrow> False | d # ds \<Rightarrow> d = c \<and> startsWith ds cs)"

text \<open>\<^verbatim>\<open>String.prototype.includes\<close>: the pattern starts at some position of the string.\<close>

primrec str_includes :: "string \<Rightarrow> string \<Rightarrow> bool" where
  "str_includes [] sub = (sub = [])"
| "str_includes (c # cs) sub = (startsWith (c # cs) sub \<or> str_includes cs sub)"

definition endsWith :: "string \<Rightarrow> string \<Rightarrow> bool" where
  "endsWith s searchString = startsWith (rev s) (rev searchString)"

definition CONNECT_TIMEOUT :: nat where
  "CONNECT_TIMEOUT = 15000"

text \<open>The members of \<^verbatim>\<open>DRIVER_SETTINGS\<close>.\<close>

definition ESP_32_STATUS_LED :: string where "ESP_32_STATUS_LED = ''esp32_status_led''"
definition MMWAVE_LED :: string where "MMWAVE_LED = ''mmwave_led''"
definition MMWAVE_ON_LATENCY :: string where "MMWAVE_ON_LATENCY = ''mmwave_on_latency''"
definition MMWAVE_OFF_LATENCY :: string where "MMWAVE_OFF_LATENCY = ''mmwave_off_latency''"
definition MMWAVE_SENSITIVITY :: string where "MMWAVE_SENSITIVITY = ''mmwave_sensitivity''"
definition MMWAVE_DISTANCE :: string where "MMWAVE_DISTANCE = ''mmwave_distance''"

definition DRIVER_SETTINGS :: "string set" where
  "DRIVER_SETTINGS =
     {ESP_32_STATUS_LED, MMWAVE_LED, MMWAVE_ON_LATENCY, MMWAVE_OFF_LATENCY, MMWAVE_SENSITIVITY,
      MMWAVE_DISTANCE}"

definition formatHostname :: "string \<Rightarrow> string" where
  "formatHostname host = (if endsWith host ''.local'' then host else host @ ''.local'')"

fun getErrorMessage :: "thrown \<Rightarrow> string" where
  "getErrorMessage (ErrorInstance message) = message"
| "getErrorMessage (OtherThrown rendering) = rendering"

section \<open>The entity schema\<close>

text \<open>
  \<^verbatim>\<open>ParsedEntityData\<close>, the type inferred from \<^verbatim>\<open>entitySchema\<close>. An optional key
  is an \<open>option\<close>.
\<close>

record entity_config =
  objectId :: string
  key :: jsnumber
  name :: string
  uniqueId :: string
  icon :: string
  unitOfMeasurement :: "string option"
  accuracyDecimals :: "jsnumber option"
  forceUpdate :: "bool option"
  deviceClass :: "string option"
  stateClass :: "jsnumber option"
  lastResetType :: "jsnumber option"
  disabledByDefault :: bool
  entityCategory :: jsnumber

record parsed_entity =
  config :: entity_config
  ent_id :: jsnumber
  ent_name :: string
  ent_type :: string
  ent_unit :: "string option"

text \<open>
  The schema combinators of the validation library, as the schema uses them:
  \<^verbatim>\<open>z.string()\<close>, \<^verbatim>\<open>z.number()\<close> (which refuses \<^verbatim>\<open>NaN\<close>),
  \<^verbatim>\<open>z.boolean()\<close>, \<^verbatim>\<open>.optional()\<close> (which accepts \<^verbatim>\<open>undefined\<close>, so
  also a missing key) and \<^verbatim>\<open>z.object\<close>, which accepts a non-null object that is not an
  array and that is not taken for a promise (an object with functions \<^verbatim>\<open>then\<close> and
  \<^verbatim>\<open>catch\<close>), reads the keys of its shape and drops every other key. \<open>None\<close> is a
  failed parse.
\<close>

fun z_string :: "jsval \<Rightarrow> string option" where
  "z_string (JStr s) = Some s"
| "z_string v = None"

fun z_number :: "jsval \<Rightarrow> jsnumber option" where
  "z_number (JNum n) = (if n = NaN then None else Some n)"
| "z_number v = None"

fun z_boolean :: "jsval \<Rightarrow> bool option" where
  "z_boolean (JBool b) = Some b"
| "z_boolean v = None"

definition z_optional :: "(jsval \<Rightarrow> 'a option) \<Rightarrow> jsval \<Rightarrow> 'a option option" where
  "z_optional schema v = (if v = JUndefined then Some None else map_option Some (schema v))"

fun z_object :: "jsval \<Rightarrow> (string \<Rightarrow> jsval) option" where
  "z_object (JObj a c ps) =
     (if typeof (get_prop (JObj a c ps) ''then'') = ''function'' \<and>
         typeof (get_prop (JObj a c ps) ''catch'') = ''function''
      then None
      else Some (get_prop (JObj a c ps)))"
| "z_object v = None"

definition entityConfigSchema :: "jsval \<Rightarrow> entity_config option" where
  "entityConfigSchema v = do {
     field \<leftarrow> z_object v;
     v_objectId \<leftarrow> z_string (field ''objectId'');
     v_key \<leftarrow> z_number (field ''key'');
     v_name \<leftarrow> z_string (field ''name'');
     v_uniqueId \<leftarrow> z_string (field ''uniqueId'');
     v_icon \<leftarrow> z_string (field ''icon'');
     v_unitOfMeasurement \<leftarrow> z_optional z_string (field ''unitOfMeasurement'');
     v_accuracyDecimals \<leftarrow> z_optional z_number (field ''accuracyDecimals'');
     v_forceUpdate \<leftarrow> z_optional z_boolean (field ''forceUpdate'');
     v_deviceClass \<leftarrow> z_optional z_string (field ''deviceClass'');
     v_stateClass \<leftarrow> z_optional z_number (field ''stateClass'');
     v_lastResetType \<leftarrow> z_optional z_number (field ''lastResetType'');
     v_disabledByDefault \<leftarrow> z_boolean (field ''disabledByDefault'');
     v_entityCategory \<leftarrow> z_number (field ''entityCategory'');
     Some \<lparr> objectId = v_objectId, key = v_key, name = v_name, uniqueId = v_uniqueId,
            icon = v_icon, unitOfMeasurement = v_unitOfMeasurement,
            accuracyDecimals = v_accuracyDecimals, forceUpdate = v_forceUpdate,
            deviceClass = v_deviceClass, stateClass = v_stateClass,
            lastResetType = v_lastResetType, disabledByDefault = v_disabledByDefault,
            entityCategory = v_entityCategory \<rparr>
   }"

text \<open>\<^verbatim>\<open>entitySchema.safeParse\<close>: the parsed data on success, \<open>None\<close> on failure.\<close>

definition entitySchema :: "jsval \<Rightarrow> parsed_entity option" where
  "entitySchema v = do {
     field \<leftarrow> z_object v;
     v_config \<leftarrow> entityConfigSchema (field ''config'');
     v_id \<leftarrow> z_number (field ''id'');
     v_name \<leftarrow> z_string (field ''name'');
     v_type \<leftarrow> z_string (field ''type'');
     v_unit \<leftarrow> z_optional z_string (field ''unit'');
     Some \<lparr> config = v_config, ent_id = v_id, ent_name = v_name, ent_type = v_type,
            ent_unit = v_unit \<rparr>
   }"

definition includesBinarySensorMMWave :: "parsed_entity \<Rightarrow> bool" where
  "includesBinarySensorMMWave entity =
     (str_includes (uniqueId (config entity)) ''binary_sensor_mmwave'' \<or>
      str_includes (uniqueId (config entity)) ''binary_sensormmwave'')"

definition includesBinarySensorOccupancy :: "parsed_entity \<Rightarrow> bool" where
  "includesBinarySensorOccupancy entity =
     (str_includes (uniqueId (config entity)) ''binary_sensor_occupancy'' \<or>
      str_includes (uniqueId (config entity)) ''binary_sensoroccupancy'')"

section \<open>The device\<close>

text \<open>
  What the device does to its collaborators (the host, the wire client, the entity handles,
  the log sinks), recorded in the order of the calls. A log call is recorded with its first
  argument. The promises these calls return are not awaited by the driver, and their
  failure is only logged, so a call is recorded when it is made.
\<close>

datatype effect =
    DebugEntity string
  | DebugClient string
  | Log string
  | LogError string
  | SetCapabilityValue string jsval
  | SetSettings string jsval
  | SetAvailable
  | SetUnavailable string
  | ClientConnect nat
  | ClientDisconnect nat
  | ListEntitiesService nat
  | SubscribeStatesService nat
  | EntitySetState nat jsval
  | DnsLookup string

text \<open>An entry of \<^verbatim>\<open>this.entities\<close>.\<close>

record registry_entry =
  data :: parsed_entity
  original :: jsval

text \<open>
  \<^verbatim>\<open>connect\<close> has two callers, each with its own rejection handler. A call of
  \<^verbatim>\<open>disconnect\<close> that has to wait for a pending connect promise is resumed when the
  promise settles: inside \<^verbatim>\<open>connect\<close>, or in \<^verbatim>\<open>onDeleted\<close>, where nothing follows.
\<close>

datatype caller = FromOnInit | FromErrorListener

datatype waiter = ResumeConnect caller | ResumeOnDeleted

datatype promise_state = Pending | Fulfilled | Rejected thrown

record address_props =
  host :: string
  port :: jsval

text \<open>The options of \<^verbatim>\<open>new Client\<close>.\<close>

record client_options = address_props +
  clearSession :: bool
  initializeDeviceInfo :: bool
  initializeListEntities :: bool
  initializeSubscribeStates :: bool
  initializeSubscribeLogs :: bool
  initializeSubscribeBLEAdvertisements :: bool
  clientInfo :: string
  encryptionKey :: string
  password :: string
  reconnect :: bool
  reconnectInterval :: nat
  pingInterval :: nat
  pingAttempts :: nat

text \<open>
  The three listeners that \<^verbatim>\<open>connect\<close> puts on a client. The listener of
  \<^verbatim>\<open>initialized\<close> closes over the address, the timer and the promise of its attempt.
\<close>

datatype client_listener =
    NewEntityListener
  | ErrorListener
  | InitializedListener address_props nat nat

record client =
  options :: client_options
  listeners :: "client_listener list"

text \<open>
  A connect promise: its state, the caller of the \<^verbatim>\<open>connect\<close> that returned it, and the
  calls of \<^verbatim>\<open>disconnect\<close> waiting for it.
\<close>

record connect_promise =
  pstate :: promise_state
  follower :: caller
  waiters :: "waiter list"

text \<open>A pending timer of the host: its delay and the promise that its callback rejects.\<close>

record timer =
  delay :: nat
  rejects :: nat

text \<open>
  The state of the device object and of the objects it shares with its collaborators.
  Clients, promises and timers are objects with an identity, kept in stores;
  \<open>handle_listeners\<close> holds, for the entity handle at an address, the listeners of its
  \<^verbatim>\<open>state\<close> event, each given by the object identifier it closes over.
  \<open>store_host\<close> and \<open>store_port\<close> are the store values that \<^verbatim>\<open>connect\<close> reads, and
  \<open>disconnect_fault\<close> is what the wire client's \<^verbatim>\<open>disconnect\<close> throws, if it does.
\<close>

record device =
  this_client :: "nat option"
  connectPromise :: "nat option"
  entities :: "(string \<times> registry_entry) list"
  clients :: "nat \<rightharpoonup> client"
  promises :: "nat \<rightharpoonup> connect_promise"
  timers :: "nat \<rightharpoonup> timer"
  handle_listeners :: "nat \<Rightarrow> string list"
  next_id :: nat
  store_host :: string
  store_port :: jsval
  disconnect_fault :: "thrown option"
  effects :: "effect list"

definition new_device :: "string \<Rightarrow> jsval \<Rightarrow> device" where
  "new_device h p =
     \<lparr> this_client = None, connectPromise = None, entities = [], clients = Map.empty,
       promises = Map.empty, timers = Map.empty, handle_listeners = (\<lambda>a. []), next_id = 0,
       store_host = h, store_port = p, disconnect_fault = None, effects = [] \<rparr>"

definition perform :: "effect list \<Rightarrow> device \<Rightarrow> device" where
  "perform es s = s\<lparr>effects := effects s @ es\<rparr>"

text \<open>
  Modelled from the spec: the locale tables behind \<^verbatim>\<open>this.homey.__\<close> are not among the
  sources; a translated text is identified with its key.
\<close>

definition homey_translate :: "string \<Rightarrow> string" where
  "homey_translate k = k"

subsection \<open>Calls on an entity handle\<close>

text \<open>
  The methods of an entity handle are those of the wire library's event emitter:
  \<^verbatim>\<open>on\<close> appends a listener, \<^verbatim>\<open>removeAllListeners\<close> drops them all,
  \<^verbatim>\<open>setState\<close> commands the device. Each is called only on a value that was checked
  to be an object with this method.
\<close>

fun call_on_state :: "jsval \<Rightarrow> string \<Rightarrow> device \<Rightarrow> device" where
  "call_on_state (JObj a c ps) entityId s =
     s\<lparr>handle_listeners := (handle_listeners s)(a := handle_listeners s a @ [entityId])\<rparr>"
| "call_on_state v entityId s = s"

fun call_removeAllListeners :: "jsval \<Rightarrow> device \<Rightarrow> device" where
  "call_removeAllListeners (JObj a c ps) s =
     s\<lparr>handle_listeners := (handle_listeners s)(a := [])\<rparr>"
| "call_removeAllListeners v s = s"

fun call_setState :: "jsval \<Rightarrow> jsval \<Rightarrow> device \<Rightarrow> device" where
  "call_setState (JObj a c ps) v s = perform [EntitySetState a v] s"
| "call_setState w v s = s"

fun call_subscribeStatesService :: "jsval \<Rightarrow> device \<Rightarrow> device" where
  "call_subscribeStatesService (JObj a c ps) s = perform [SubscribeStatesService a] s"
| "call_subscribeStatesService v s = s"

text \<open>
  The test that guards each of these calls:
  \<^verbatim>\<open>typeof v !== 'object' || v === null || !(m in v) || typeof v.m !== 'function'\<close>.
\<close>

definition lacks_method :: "jsval \<Rightarrow> string \<Rightarrow> bool" where
  "lacks_method v m =
     (typeof v \<noteq> ''object'' \<or> v = JNull \<or> \<not> has_prop m v \<or> typeof (get_prop v m) \<noteq> ''function'')"

subsection \<open>\<^verbatim>\<open>registerEntity\<close>\<close>

text \<open>
  A function that can throw after it has changed the device returns the device it leaves
  behind together with the exception, if any. \<^verbatim>\<open>subscribeStatesService\<close> is called on
  a value that was checked to be a connection of the wire library.
\<close>

definition registerEntity :: "jsval \<Rightarrow> device \<Rightarrow> device \<times> thrown option" where
  "registerEntity entity s =
     (case entitySchema entity of
        None \<Rightarrow> (perform [DebugEntity ''Invalid entity object received, error:''] s, None)
      | Some parsed \<Rightarrow>
          let s1 = s\<lparr>entities :=
                      AList.update (objectId (config parsed))
                        \<lparr>data = parsed, original = entity\<rparr> (entities s)\<rparr>;
              s2 = perform [DebugEntity (''Register entity: '' @ objectId (config parsed) @ '':'')] s1
          in if typeof entity \<noteq> ''object'' \<or> entity = JNull \<or> \<not> has_prop ''connection'' entity \<or>
                \<not> instanceof_Connection (get_prop entity ''connection'')
             then (s2, Some (ErrorInstance ''Expected entity.connection to be instanceof Connection''))
             else
               let s3 = call_subscribeStatesService (get_prop entity ''connection'') s2
               in if lacks_method entity ''on''
                  then (s3, Some (ErrorInstance ''Expected entity.on to be a function''))
                  else (call_on_state entity (objectId (config parsed)) s3, None))"

subsection \<open>\<^verbatim>\<open>onEntityState\<close>\<close>

text \<open>The first \<^verbatim>\<open>switch\<close> of \<^verbatim>\<open>onEntityState\<close>, on the device class.\<close>

definition dispatch_capability :: "parsed_entity \<Rightarrow> jsval \<Rightarrow> device \<Rightarrow> device" where
  "dispatch_capability entity v s =
     (if deviceClass (config entity) = Some ''temperature'' then
        (if typeof v = ''number''
         then perform [DebugEntity ''Capability: measure_temperature: state event'',
                       SetCapabilityValue ''measure_temperature'' v] s
         else s)
      else if deviceClass (config entity) = Some ''humidity'' then
        (if typeof v = ''number''
         then perform [DebugEntity ''Capability: measure_humidity: state event'',
                       SetCapabilityValue ''measure_humidity'' v] s
         else s)
      else if deviceClass (config entity) = Some ''illuminance'' then
        (if typeof v = ''number''
         then perform [DebugEntity ''Capability: measure_luminance: state event'',
                       SetCapabilityValue ''measure_luminance'' v] s
         else s)
      else if deviceClass (config entity) = Some ''motion'' then
        (if typeof v = ''boolean''
         then perform [DebugEntity ''Capability: alarm_motion.pir: state event'',
                       SetCapabilityValue ''alarm_motion.pir'' v] s
         else s)
      else if deviceClass (config entity) = Some ''occupancy'' then
        (if typeof v = ''boolean'' then
           (if includesBinarySensorMMWave entity
            then perform [DebugEntity ''Capability: alarm_motion.mmwave: state event'',
                          SetCapabilityValue ''alarm_motion.mmwave'' v] s
            else if includesBinarySensorOccupancy entity
            then perform [DebugEntity ''Capability: alarm_motion: state event'',
                          SetCapabilityValue ''alarm_motion'' v] s
            else s)
         else s)
      else perform [DebugEntity ''Unknown device class:''] s)"

text \<open>The second \<^verbatim>\<open>switch\<close>, on the object identifier.\<close>

definition dispatch_setting :: "parsed_entity \<Rightarrow> jsval \<Rightarrow> device \<Rightarrow> device" where
  "dispatch_setting entity v s =
     (if objectId (config entity) \<in>
           {MMWAVE_SENSITIVITY, MMWAVE_ON_LATENCY, MMWAVE_OFF_LATENCY, MMWAVE_DISTANCE} then
        (if typeof v = ''number''
         then perform [DebugEntity (''Setting: '' @ objectId (config entity) @ '': state event''),
                       SetSettings (objectId (config entity)) v] s
         else s)
      else if objectId (config entity) \<in> {MMWAVE_LED, ESP_32_STATUS_LED} then
        (if typeof v = ''boolean''
         then perform [DebugEntity (''Setting: '' @ objectId (config entity) @ '': state event''),
                       SetSettings (objectId (config entity)) v] s
         else s)
      else perform [DebugEntity ''Unknown setting:''] s)"

definition onEntityState :: "string \<Rightarrow> jsval \<Rightarrow> device \<Rightarrow> device \<times> thrown option" where
  "onEntityState entityId state s =
     (case map_option data (map_of (entities s) entityId) of
        None \<Rightarrow> (s, Some (ErrorInstance (''Missing entity '' @ entityId)))
      | Some entity \<Rightarrow>
          (dispatch_setting entity (get_prop state ''state'')
             (dispatch_capability entity (get_prop state ''state'')
                (perform [DebugEntity ''state''] s)),
           None))"

text \<open>
  The listener that \<^verbatim>\<open>registerEntity\<close> puts on the \<^verbatim>\<open>state\<close> event of a handle, for
  the object identifier it closes over; and the handle emitting \<^verbatim>\<open>state\<close>.
\<close>

definition entity_state_listener :: "string \<Rightarrow> jsval \<Rightarrow> device \<Rightarrow> device \<times> thrown option" where
  "entity_state_listener entityId state s =
     (case onEntityState entityId state s of
        (s1, Some err) \<Rightarrow> (perform [DebugEntity ''Failed to handle entity state event''] s1, None)
      | (s1, None) \<Rightarrow> (s1, None))"

fun run_state_listeners :: "string list \<Rightarrow> jsval \<Rightarrow> device \<Rightarrow> device \<times> thrown option" where
  "run_state_listeners [] state s = (s, None)"
| "run_state_listeners (entityId # rest) state s =
     (case entity_state_listener entityId state s of
        (s1, Some err) \<Rightarrow> (s1, Some err)
      | (s1, None) \<Rightarrow> run_state_listeners rest state s1)"

definition entity_emit_state :: "nat \<Rightarrow> jsval \<Rightarrow> device \<Rightarrow> device \<times> thrown option" where
  "entity_emit_state a state s = run_state_listeners (handle_listeners s a) state s"

subsection \<open>\<^verbatim>\<open>onSettings\<close>\<close>

text \<open>
  The loop over the changed keys. The labels of its \<^verbatim>\<open>switch\<close> are the six members
  of \<^verbatim>\<open>DRIVER_SETTINGS\<close>; every other key takes the default branch.
\<close>

fun onSettings_loop :: "(string \<Rightarrow> jsval) \<Rightarrow> string list \<Rightarrow> device \<Rightarrow> device \<times> thrown option" where
  "onSettings_loop newSettings [] s = (s, None)"
| "onSettings_loop newSettings (changedKey # rest) s =
     (if changedKey \<in> DRIVER_SETTINGS then
        (case map_of (entities s) changedKey of
           None \<Rightarrow> (s, Some (ErrorInstance (''Missing entity '' @ changedKey)))
         | Some entity \<Rightarrow>
             if \<not> truthy (original entity)
             then (s, Some (ErrorInstance (''Missing original entity '' @ changedKey)))
             else if typeof (newSettings changedKey) = ''number'' \<or>
                     typeof (newSettings changedKey) = ''boolean''
             then (if lacks_method (original entity) ''setState''
                   then (s, Some (ErrorInstance ''Expected entity.setState to be a function''))
                   else onSettings_loop newSettings rest
                          (call_setState (original entity) (newSettings changedKey) s))
             else onSettings_loop newSettings rest s)
      else onSettings_loop newSettings rest (perform [Log ''Unknown changed setting key:''] s))"

definition onSettings :: "(string \<Rightarrow> jsval) \<Rightarrow> string list \<Rightarrow> device \<Rightarrow> device \<times> thrown option" where
  "onSettings newSettings changedKeys s =
     onSettings_loop newSettings changedKeys
       (perform [Log ''EverythingPresenceOneDevice settings were changed''] s)"

subsection \<open>\<^verbatim>\<open>disconnect\<close>\<close>

text \<open>The callback of \<^verbatim>\<open>this.entities.forEach\<close>, over the entries in insertion order.\<close>

fun revoke_entity_listeners ::
  "(string \<times> registry_entry) list \<Rightarrow> device \<Rightarrow> device \<times> thrown option" where
  "revoke_entity_listeners [] s = (s, None)"
| "revoke_entity_listeners ((k, entity) # rest) s =
     (if lacks_method (original entity) ''removeAllListeners''
      then (s, Some (ErrorInstance ''Expected entity.removeAllListeners to be a function''))
      else revoke_entity_listeners rest (call_removeAllListeners (original entity) s))"

text \<open>
  \<^verbatim>\<open>disconnect\<close> up to its \<^verbatim>\<open>await\<close>: the transport is closed (a failure is caught
  and logged), the listeners of the client and of every registered handle are removed.
\<close>

definition disconnect_teardown :: "device \<Rightarrow> device \<times> thrown option" where
  "disconnect_teardown s =
     (let s1 = perform [DebugClient ''disconnect''] s;
          s2 = (case this_client s1 of
                  None \<Rightarrow> s1
                | Some c \<Rightarrow>
                    (case disconnect_fault s1 of
                       None \<Rightarrow> perform [ClientDisconnect c] s1
                     | Some err \<Rightarrow>
                         perform [ClientDisconnect c, LogError ''Failed to disconnect client''] s1));
          s3 = (case this_client s2 of
                  None \<Rightarrow> s2
                | Some c \<Rightarrow>
                    s2\<lparr>clients := (clients s2)(c := map_option (\<lambda>cl. cl\<lparr>listeners := []\<rparr>)
                                                     (clients s2 c))\<rparr>)
      in revoke_entity_listeners (entities s3) s3)"

text \<open>
  The \<^verbatim>\<open>await this.connectPromise?.catch(() => undefined)\<close> that ends
  \<^verbatim>\<open>disconnect\<close>: the promise to wait for, when there is one and it is still pending.
\<close>

definition disconnect_awaits :: "device \<Rightarrow> nat option" where
  "disconnect_awaits s =
     (case connectPromise s of
        None \<Rightarrow> None
      | Some p \<Rightarrow>
          (case promises s p of
             None \<Rightarrow> None
           | Some pr \<Rightarrow> if pstate pr = Pending then Some p else None))"

definition add_waiter :: "nat \<Rightarrow> waiter \<Rightarrow> device \<Rightarrow> device" where
  "add_waiter p w s =
     s\<lparr>promises := (promises s)(p := map_option (\<lambda>pr. pr\<lparr>waiters := waiters pr @ [w]\<rparr>)
                                         (promises s p))\<rparr>"

subsection \<open>\<^verbatim>\<open>connect\<close>\<close>

definition client_on :: "nat \<Rightarrow> client_listener \<Rightarrow> device \<Rightarrow> device" where
  "client_on c l s =
     s\<lparr>clients := (clients s)(c := map_option (\<lambda>cl. cl\<lparr>listeners := listeners cl @ [l]\<rparr>)
                                       (clients s c))\<rparr>"

definition client_options_of :: "address_props \<Rightarrow> client_options" where
  "client_options_of addressProps =
     \<lparr> host = host addressProps, port = port addressProps,
       clearSession = False,
       initializeDeviceInfo = False,
       initializeListEntities = False,
       initializeSubscribeStates = True,
       initializeSubscribeLogs = False,
       initializeSubscribeBLEAdvertisements = False,
       clientInfo = ''homey'',
       encryptionKey = [],
       password = [],
       reconnect = True,
       reconnectInterval = 30000,
       pingInterval = 15000,
       pingAttempts = 3 \<rparr>"

text \<open>
  \<^verbatim>\<open>connect\<close> after its \<^verbatim>\<open>await this.disconnect()\<close>. The client, the promise and
  the timer of one attempt get the same fresh number, each in its own store.
\<close>

definition connect_body :: "caller \<Rightarrow> device \<Rightarrow> device" where
  "connect_body who s =
     (let addressProps = \<lparr> host = formatHostname (store_host s), port = store_port s \<rparr>;
          n = next_id s;
          s1 = perform [DebugClient ''connecting:''] s;
          s2 = s1\<lparr>this_client := Some n,
                  clients := (clients s1)(n \<mapsto> \<lparr>options = client_options_of addressProps,
                                                 listeners = []\<rparr>),
                  next_id := Suc n\<rparr>;
          s3 = client_on n NewEntityListener s2;
          s4 = client_on n ErrorListener s3;
          s5 = s4\<lparr>promises := (promises s4)(n \<mapsto> \<lparr>pstate = Pending, follower = who,
                                                   waiters = []\<rparr>),
                  timers := (timers s4)(n \<mapsto> \<lparr>delay = CONNECT_TIMEOUT, rejects = n\<rparr>)\<rparr>;
          s6 = perform [ClientConnect n] s5;
          s7 = client_on n (InitializedListener addressProps n n) s6
      in s7\<lparr>connectPromise := Some n\<rparr>)"

text \<open>The rejection handlers that \<^verbatim>\<open>onInit\<close> and the error listener put on \<^verbatim>\<open>connect\<close>.\<close>

fun connect_rejected :: "caller \<Rightarrow> thrown \<Rightarrow> device \<Rightarrow> device" where
  "connect_rejected FromOnInit err s =
     perform [LogError ''EverythingPresenceOneDevice failed to connect''] s"
| "connect_rejected FromErrorListener err s =
     perform [Log ''Could not re-connect after error'',
              SetUnavailable (homey_translate ''error.unavailable'')] s"

text \<open>
  A call \<^verbatim>\<open>this.connect().catch(...)\<close>: it is rejected when the teardown throws, it waits
  when an earlier connect promise is pending, and it goes on at once otherwise.
\<close>

definition connect :: "caller \<Rightarrow> device \<Rightarrow> device" where
  "connect who s =
     (case disconnect_teardown s of
        (s1, Some err) \<Rightarrow> connect_rejected who err s1
      | (s1, None) \<Rightarrow>
          (case disconnect_awaits s1 of
             Some p \<Rightarrow> add_waiter p (ResumeConnect who) s1
           | None \<Rightarrow> connect_body who s1))"

subsection \<open>Settling a connect promise\<close>

fun resume_waiters :: "waiter list \<Rightarrow> device \<Rightarrow> device" where
  "resume_waiters [] s = s"
| "resume_waiters (ResumeConnect who # ws) s = resume_waiters ws (connect_body who s)"
| "resume_waiters (ResumeOnDeleted # ws) s = resume_waiters ws s"

text \<open>
  \<^verbatim>\<open>resolve\<close> and \<^verbatim>\<open>reject\<close>: without effect on a settled promise; on a pending one,
  the rejection handler of the caller runs, then the waiting calls go on.
\<close>

definition settle :: "nat \<Rightarrow> promise_state \<Rightarrow> device \<Rightarrow> device" where
  "settle p outcome s =
     (case promises s p of
        None \<Rightarrow> s
      | Some pr \<Rightarrow>
          if pstate pr \<noteq> Pending then s
          else
            let s1 = s\<lparr>promises := (promises s)(p \<mapsto> pr\<lparr>pstate := outcome, waiters := []\<rparr>)\<rparr>;
                s2 = (case outcome of
                        Rejected err \<Rightarrow> connect_rejected (follower pr) err s1
                      | _ \<Rightarrow> s1)
            in resume_waiters (waiters pr) s2)"

text \<open>The host runs the callback of a pending timer, once.\<close>

definition fire_timer :: "nat \<Rightarrow> device \<Rightarrow> device" where
  "fire_timer t s =
     (case timers s t of
        None \<Rightarrow> s
      | Some tm \<Rightarrow>
          settle (rejects tm) (Rejected (ErrorInstance (homey_translate ''error.connect_timeout'')))
            (s\<lparr>timers := (timers s)(t := None)\<rparr>))"

subsection \<open>The listeners of the client\<close>

text \<open>
  The listener of \<^verbatim>\<open>error\<close>, and the listener of \<^verbatim>\<open>initialized\<close> for an attempt
  with the given address, timer and promise. The latter reads \<^verbatim>\<open>this.client\<close> when it
  runs; a read of \<^verbatim>\<open>connection\<close> on a missing client is a type error. The lookup of the
  host name is recorded when it starts; what it resolves to is up to the resolver.
\<close>

definition on_client_error :: "thrown \<Rightarrow> device \<Rightarrow> device" where
  "on_client_error error s =
     (let s1 = perform [DebugClient ''error:''] s
      in if str_includes (getErrorMessage error) ''Bad format: Encryption expected''
         then perform [SetUnavailable (homey_translate ''error.unavailable_encrypted'')] s1
         else connect FromErrorListener s1)"

definition on_client_initialized ::
  "address_props \<Rightarrow> nat \<Rightarrow> nat \<Rightarrow> device \<Rightarrow> device \<times> thrown option" where
  "on_client_initialized addressProps connectTimeout p s =
     (let s1 = perform [DebugClient ''connected''] s;
          s2 = s1\<lparr>timers := (timers s1)(connectTimeout := None)\<rparr>
      in case this_client s2 of
           None \<Rightarrow> (s2, Some (ErrorInstance ''TypeError''))
         | Some c \<Rightarrow>
             (settle p Fulfilled
                (perform [ListEntitiesService c, DnsLookup (host addressProps), SetAvailable] s2),
              None))"

datatype client_event = NewEntity jsval | ClientError thrown | Initialized

fun run_client_listener ::
  "client_listener \<Rightarrow> client_event \<Rightarrow> device \<Rightarrow> device \<times> thrown option" where
  "run_client_listener NewEntityListener (NewEntity entity) s = registerEntity entity s"
| "run_client_listener ErrorListener (ClientError error) s = (on_client_error error s, None)"
| "run_client_listener (InitializedListener addressProps connectTimeout p) Initialized s =
     on_client_initialized addressProps connectTimeout p s"
| "run_client_listener l ev s = (s, None)"

fun run_client_listeners ::
  "client_listener list \<Rightarrow> client_event \<Rightarrow> device \<Rightarrow> device \<times> thrown option" where
  "run_client_listeners [] ev s = (s, None)"
| "run_client_listeners (l # ls) ev s =
     (case run_client_listener l ev s of
        (s1, Some err) \<Rightarrow> (s1, Some err)
      | (s1, None) \<Rightarrow> run_client_listeners ls ev s1)"

text \<open>
  A client emits an event: its listeners run in the order they were added. An
  \<^verbatim>\<open>error\<close> event without a listener is thrown by the emitter: an instance of
  \<^verbatim>\<open>Error\<close> as it is, any other value inside an error for the unhandled event.
\<close>

fun unhandled_error :: "thrown \<Rightarrow> thrown" where
  "unhandled_error (ErrorInstance message) = ErrorInstance message"
| "unhandled_error (OtherThrown rendering) =
     ErrorInstance (''Unhandled error. ('' @ rendering @ '')'')"

fun client_emit_unhandled :: "client_listener list \<Rightarrow> client_event \<Rightarrow> thrown option" where
  "client_emit_unhandled ls (ClientError error) =
     (if ErrorListener \<in> set ls then None else Some (unhandled_error error))"
| "client_emit_unhandled ls ev = None"

definition client_emit :: "nat \<Rightarrow> client_event \<Rightarrow> device \<Rightarrow> device \<times> thrown option" where
  "client_emit c ev s =
     (case clients s c of
        None \<Rightarrow> (s, None)
      | Some cl \<Rightarrow>
          (case client_emit_unhandled (listeners cl) ev of
             Some err \<Rightarrow> (s, Some err)
           | None \<Rightarrow> run_client_listeners (listeners cl) ev s))"

subsection \<open>\<^verbatim>\<open>onInit\<close> and \<^verbatim>\<open>onDeleted\<close>\<close>

definition onInit :: "device \<Rightarrow> device" where
  "onInit s = connect FromOnInit (perform [Log ''EverythingPresenceOneDevice has been initialized''] s)"

definition onDeleted :: "device \<Rightarrow> device" where
  "onDeleted s =
     (case disconnect_teardown (perform [Log ''EverythingPresenceOneDevice has been deleted''] s) of
        (s1, Some err) \<Rightarrow> s1
      | (s1, None) \<Rightarrow>
          (case disconnect_awaits s1 of
             Some p \<Rightarrow> add_waiter p ResumeOnDeleted s1
           | None \<Rightarrow> s1))"

section \<open>Observations and example inputs\<close>

text \<open>The capability writes among the effects, in order.\<close>

fun capability_writes :: "effect list \<Rightarrow> (string \<times> jsval) list" where
  "capability_writes [] = []"
| "capability_writes (SetCapabilityValue c v # es) = (c, v) # capability_writes es"
| "capability_writes (e # es) = capability_writes es"

text \<open>
  An entity announcement shaped like the example in the source, with a given address,
  object identifier, unique identifier and device class, and with the given further
  properties; and what the schema makes of it.
\<close>

definition example_entity ::
  "nat \<Rightarrow> string \<Rightarrow> string \<Rightarrow> string \<Rightarrow> (string \<times> jsval) list \<Rightarrow> jsval" where
  "example_entity a oid uid cls methods =
     JObj a PlainObject
       ([(''config'', JObj (Suc a) PlainObject
            [(''objectId'', JStr oid), (''key'', JNum (Finite 920262939)),
             (''name'', JStr '' Illuminance''), (''uniqueId'', JStr uid), (''icon'', JStr []),
             (''unitOfMeasurement'', JStr ''lx''), (''accuracyDecimals'', JNum (Finite 1)),
             (''forceUpdate'', JBool False), (''deviceClass'', JStr cls),
             (''stateClass'', JNum (Finite 1)), (''lastResetType'', JNum (Finite 0)),
             (''disabledByDefault'', JBool False), (''entityCategory'', JNum (Finite 0))]),
         (''type'', JStr ''Sensor''), (''name'', JStr '' Illuminance''),
         (''id'', JNum (Finite 920262939))] @ methods)"

definition example_parsed :: "string \<Rightarrow> string \<Rightarrow> string \<Rightarrow> parsed_entity" where
  "example_parsed oid uid cls =
     \<lparr> config = \<lparr> objectId = oid, key = Finite 920262939, name = '' Illuminance'',
                  uniqueId = uid, icon = [], unitOfMeasurement = Some ''lx'',
                  accuracyDecimals = Some (Finite 1), forceUpdate = Some False,
                  deviceClass = Some cls, stateClass = Some (Finite 1),
                  lastResetType = Some (Finite 0), disabledByDefault = False,
                  entityCategory = Finite 0 \<rparr>,
       ent_id = Finite 920262939, ent_name = '' Illuminance'', ent_type = ''Sensor'',
       ent_unit = None \<rparr>"

text \<open>The properties of a live handle: its connection, at a given address, and its methods.\<close>

definition handle_methods :: "nat \<Rightarrow> (string \<times> jsval) list" where
  "handle_methods a =
     [(''connection'', JObj a ConnectionInstance []), (''on'', JFun),
      (''removeAllListeners'', JFun), (''setState'', JFun)]"

definition example_device :: device where
  "example_device = new_device ''everything-presence-one-7083cc'' (JNum (Finite 6053))"

text \<open>A state payload with a given value, shaped like the example in the source.\<close>

definition example_state :: "jsval \<Rightarrow> jsval" where
  "example_state v =
     JObj 20 PlainObject [(''key'', JNum (Finite 920262939)), (''state'', v),
                          (''missingState'', JBool False)]"

text \<open>A device with one live temperature entity, and one with one live occupancy entity.\<close>

definition temperature_device :: device where
  "temperature_device =
     fst (registerEntity
       (example_entity 10 ''_temperature'' ''everything-presence-one-7083ccsensor_temperature''
          ''temperature'' (handle_methods 12)) example_device)"

definition occupancy_device :: "string \<Rightarrow> device" where
  "occupancy_device uid =
     fst (registerEntity (example_entity 10 ''_occupancy'' uid ''occupancy'' (handle_methods 12))
            example_device)"

text \<open>An announcement that lacks most of the keys of the schema.\<close>

definition malformed_entity :: jsval where
  "malformed_entity =
     JObj 30 PlainObject
       [(''config'', JObj 31 PlainObject [(''objectId'', JStr ''_temperature'')]),
        (''name'', JStr ''Temperature''), (''type'', JStr ''Sensor'')]"

text \<open>
  A device after \<^verbatim>\<open>onInit\<close>, waiting for its first session to initialise; the same
  device after the session has initialised and announced a live temperature entity; and
  that device after the session has also announced an entity without any method.
\<close>

definition connecting_device :: device where
  "connecting_device = onInit example_device"

definition connected_device :: device where
  "connected_device =
     fst (client_emit 0
       (NewEntity (example_entity 10 ''_temperature''
          ''everything-presence-one-7083ccsensor_temperature'' ''temperature'' (handle_methods 12)))
       (fst (client_emit 0 Initialized (onInit example_device))))"

definition broken_device :: device where
  "broken_device =
     fst (client_emit 0
       (NewEntity (example_entity 30 ''_illuminance''
          ''everything-presence-one-7083ccsensor_illuminance'' ''illuminance'' []))
       connected_device)"

section \<open>Auxiliary facts\<close>

lemma capability_writes_append:
  "capability_writes (xs @ ys) = capability_writes xs @ capability_writes ys"
  by (induction xs rule: capability_writes.induct) simp_all

lemma effects_perform: "effects (perform es s) = effects s @ es"
  by (simp add: perform_def)

lemma entities_perform: "entities (perform es s) = entities s"
  by (simp add: perform_def)

lemma entities_call_on_state: "entities (call_on_state v k s) = entities s"
  by (cases v) simp_all

lemma entities_call_subscribeStatesService:
  "entities (call_subscribeStatesService v s) = entities s"
  by (cases v) (simp_all add: entities_perform)

lemma entities_call_setState: "entities (call_setState w v s) = entities s"
  by (cases w) (simp_all add: entities_perform)

lemma entities_registerEntity:
  "entitySchema raw = Some parsed \<Longrightarrow>
     entities (fst (registerEntity raw s)) =
       AList.update (objectId (config parsed)) \<lparr>data = parsed, original = raw\<rparr> (entities s)"
  by (simp add: registerEntity_def Let_def entities_perform entities_call_on_state
      entities_call_subscribeStatesService)

lemma entitySchema_example_handle:
  "entitySchema (example_entity a oid uid cls (handle_methods b)) =
     Some (example_parsed oid uid cls)"
  by (simp add: entitySchema_def entityConfigSchema_def example_entity_def example_parsed_def
      z_optional_def handle_methods_def)

lemma entitySchema_example_plain:
  "entitySchema (example_entity a oid uid cls []) = Some (example_parsed oid uid cls)"
  by (simp add: entitySchema_def entityConfigSchema_def example_entity_def example_parsed_def
      z_optional_def)

lemma capability_writes_dispatch_setting:
  "capability_writes (effects (dispatch_setting entity v s)) = capability_writes (effects s)"
  by (simp add: dispatch_setting_def effects_perform capability_writes_append)

lemma entities_example_registered:
  "entities (fst (registerEntity (example_entity a oid uid cls (handle_methods b)) example_device)) =
     [(oid, \<lparr>data = example_parsed oid uid cls,
             original = example_entity a oid uid cls (handle_methods b)\<rparr>)]"
  by (simp add: entities_registerEntity [OF entitySchema_example_handle]
      new_device_def example_device_def example_parsed_def)

lemma effects_call_on_state: "effects (call_on_state v k s) = effects s"
  by (cases v) simp_all

lemma capability_writes_call_subscribe:
  "capability_writes (effects (call_subscribeStatesService v s)) = capability_writes (effects s)"
  by (cases v) (simp_all add: effects_perform capability_writes_append)

lemma capability_writes_registerEntity:
  "capability_writes (effects (fst (registerEntity raw s))) = capability_writes (effects s)"
  by (simp add: registerEntity_def Let_def effects_perform capability_writes_append
      effects_call_on_state capability_writes_call_subscribe split: option.split)

lemma effects_example_device: "effects example_device = []"
  by (simp add: example_device_def new_device_def)

lemma entities_onSettings_loop: "entities (fst (onSettings_loop ns ks s)) = entities s"
  by (induction ks arbitrary: s)
    (simp_all add: entities_perform entities_call_setState split: option.split)

lemma onSettings_loop_append:
  "onSettings_loop ns before s = (s1, None) \<Longrightarrow>
     onSettings_loop ns (before @ ks) s = onSettings_loop ns ks s1"
  by (induction before arbitrary: s) (auto split: option.splits if_splits)

lemma run_state_listeners_no_throw: "snd (run_state_listeners ks state s) = None"
  by (induction ks arbitrary: s)
    (auto simp: entity_state_listener_def split: prod.splits option.splits)

section \<open>State dispatch\<close>

text \<open>
  C5. For a registered entity of device class \<^verbatim>\<open>temperature\<close>, a state event with
  a numeric value \<open>v\<close> makes exactly one capability write, of \<open>v\<close> to
  \<^verbatim>\<open>measure_temperature\<close>, and a state event with a boolean value makes no capability
  write; neither raises.
\<close>

theorem temperature_state_dispatch:
  assumes "map_of (entities s) entityId = Some entry"
    and "deviceClass (config (data entry)) = Some ''temperature''"
  shows "snd (onEntityState entityId state s) = None \<and>
     (get_prop state ''state'' = JNum v \<longrightarrow>
       capability_writes (effects (fst (onEntityState entityId state s))) =
         capability_writes (effects s) @ [(''measure_temperature'', JNum v)]) \<and>
     (get_prop state ''state'' = JBool b \<longrightarrow>
       capability_writes (effects (fst (onEntityState entityId state s))) =
         capability_writes (effects s))"
  using assms
  by (simp add: onEntityState_def capability_writes_dispatch_setting dispatch_capability_def
      effects_perform capability_writes_append)

text \<open>C5, at the temperature entity of the example device, for the states 21.5 and true.\<close>

theorem temperature_state_dispatch_witness:
  "map_of (entities temperature_device) ''_temperature'' =
     Some \<lparr>data = example_parsed ''_temperature''
                    ''everything-presence-one-7083ccsensor_temperature'' ''temperature'',
           original = example_entity 10 ''_temperature''
                    ''everything-presence-one-7083ccsensor_temperature'' ''temperature''
                    (handle_methods 12)\<rparr> \<and>
   capability_writes (effects (fst (onEntityState ''_temperature''
       (example_state (JNum (Finite 21.5))) temperature_device))) =
     capability_writes (effects temperature_device) @
       [(''measure_temperature'', JNum (Finite 21.5))] \<and>
   capability_writes (effects (fst (onEntityState ''_temperature''
       (example_state (JBool True)) temperature_device))) =
     capability_writes (effects temperature_device)"
  using temperature_state_dispatch [of temperature_device "''_temperature''" _
      "example_state (JNum (Finite 21.5))" "Finite 21.5" True]
    temperature_state_dispatch [of temperature_device "''_temperature''" _
      "example_state (JBool True)" "Finite 21.5" True]
  by (simp add: entities_example_registered temperature_device_def example_parsed_def
      example_state_def)

text \<open>
  C6, as the code has it. For a registered entity of device class \<^verbatim>\<open>occupancy\<close>
  and a boolean state: when the unique identifier contains \<^verbatim>\<open>binary_sensor_mmwave\<close> or
  \<^verbatim>\<open>binary_sensormmwave\<close>, the value is written to \<^verbatim>\<open>alarm_motion.mmwave\<close>; when
  it contains neither of these and contains \<^verbatim>\<open>binary_sensor_occupancy\<close> or
  \<^verbatim>\<open>binary_sensoroccupancy\<close>, the value is written to \<^verbatim>\<open>alarm_motion\<close>.
\<close>

theorem occupancy_state_dispatch:
  assumes "map_of (entities s) entityId = Some entry"
    and "deviceClass (config (data entry)) = Some ''occupancy''"
    and "get_prop state ''state'' = JBool b"
  shows "(includesBinarySensorMMWave (data entry) \<longrightarrow>
       capability_writes (effects (fst (onEntityState entityId state s))) =
         capability_writes (effects s) @ [(''alarm_motion.mmwave'', JBool b)]) \<and>
     (\<not> includesBinarySensorMMWave (data entry) \<and> includesBinarySensorOccupancy (data entry) \<longrightarrow>
       capability_writes (effects (fst (onEntityState entityId state s))) =
         capability_writes (effects s) @ [(''alarm_motion'', JBool b)])"
  using assms
  by (simp add: onEntityState_def capability_writes_dispatch_setting dispatch_capability_def
      effects_perform capability_writes_append)

text \<open>C6, at a unique identifier of either firmware naming.\<close>

theorem occupancy_state_dispatch_witness:
  "capability_writes (effects (fst (onEntityState ''_occupancy'' (example_state (JBool True))
       (occupancy_device ''everything-presence-one-7083ccbinary_sensor_mmwave'')))) =
     [(''alarm_motion.mmwave'', JBool True)] \<and>
   capability_writes (effects (fst (onEntityState ''_occupancy'' (example_state (JBool False))
       (occupancy_device ''everything-presence-one-7083ccbinary_sensoroccupancy'')))) =
     [(''alarm_motion'', JBool False)]"
  using occupancy_state_dispatch [of
      "occupancy_device ''everything-presence-one-7083ccbinary_sensor_mmwave''" "''_occupancy''" _
      "example_state (JBool True)" True]
    occupancy_state_dispatch [of
      "occupancy_device ''everything-presence-one-7083ccbinary_sensoroccupancy''" "''_occupancy''" _
      "example_state (JBool False)" False]
  by (simp add: entities_example_registered occupancy_device_def example_parsed_def
      example_state_def includesBinarySensorMMWave_def includesBinarySensorOccupancy_def
      capability_writes_registerEntity effects_example_device)

text \<open>
  C6, as the claim states it, fails: a unique identifier that contains an occupancy marker
  and an mmWave marker is routed to \<^verbatim>\<open>alarm_motion.mmwave\<close>, and nothing is written to
  \<^verbatim>\<open>alarm_motion\<close>.
\<close>

theorem occupancy_state_dispatch_counterexample:
  "map_of (entities (occupancy_device ''ep1-binary_sensor_occupancy-binary_sensor_mmwave''))
       ''_occupancy'' =
     Some \<lparr>data = example_parsed ''_occupancy''
                    ''ep1-binary_sensor_occupancy-binary_sensor_mmwave'' ''occupancy'',
           original = example_entity 10 ''_occupancy''
                    ''ep1-binary_sensor_occupancy-binary_sensor_mmwave'' ''occupancy''
                    (handle_methods 12)\<rparr> \<and>
   includesBinarySensorOccupancy
     (example_parsed ''_occupancy'' ''ep1-binary_sensor_occupancy-binary_sensor_mmwave''
        ''occupancy'') \<and>
   capability_writes (effects (fst (onEntityState ''_occupancy'' (example_state (JBool True))
       (occupancy_device ''ep1-binary_sensor_occupancy-binary_sensor_mmwave'')))) =
     [(''alarm_motion.mmwave'', JBool True)] \<and>
   capability_writes (effects (fst (onEntityState ''_occupancy'' (example_state (JBool True))
       (occupancy_device ''ep1-binary_sensor_occupancy-binary_sensor_mmwave'')))) \<noteq>
     capability_writes
       (effects (occupancy_device ''ep1-binary_sensor_occupancy-binary_sensor_mmwave'')) @
     [(''alarm_motion'', JBool True)]"
proof -
  let ?uid = "''ep1-binary_sensor_occupancy-binary_sensor_mmwave''"
  have entry: "map_of (entities (occupancy_device ?uid)) ''_occupancy'' =
      Some \<lparr>data = example_parsed ''_occupancy'' ?uid ''occupancy'',
            original = example_entity 10 ''_occupancy'' ?uid ''occupancy'' (handle_methods 12)\<rparr>"
    by (simp add: occupancy_device_def entities_example_registered)
  have marker: "includesBinarySensorOccupancy (example_parsed ''_occupancy'' ?uid ''occupancy'')"
    by (simp add: includesBinarySensorOccupancy_def example_parsed_def)
  have before: "capability_writes (effects (occupancy_device ?uid)) = []"
    by (simp add: occupancy_device_def capability_writes_registerEntity effects_example_device)
  have mmwave: "includesBinarySensorMMWave (example_parsed ''_occupancy'' ?uid ''occupancy'')"
    by (simp add: includesBinarySensorMMWave_def example_parsed_def)
  have occupancy: "deviceClass (config (example_parsed ''_occupancy'' ?uid ''occupancy'')) =
      Some ''occupancy''"
    by (simp add: example_parsed_def)
  have writes: "capability_writes (effects (fst (onEntityState ''_occupancy''
      (example_state (JBool True)) (occupancy_device ?uid)))) = [(''alarm_motion.mmwave'', JBool True)]"
    using before
    by (simp add: onEntityState_def entry capability_writes_dispatch_setting
        dispatch_capability_def occupancy mmwave effects_perform capability_writes_append
        example_state_def)
  show ?thesis
    using entry marker writes before by simp
qed

section \<open>The entity registry\<close>

text \<open>
  C7. For a payload that fails the entity schema, \<^verbatim>\<open>registerEntity\<close> does not raise, leaves
  the registry unchanged, and changes nothing but the log.
\<close>

theorem registerEntity_invalid_payload:
  "entitySchema raw = None \<Longrightarrow>
     registerEntity raw s =
       (perform [DebugEntity ''Invalid entity object received, error:''] s, None) \<and>
     entities (fst (registerEntity raw s)) = entities s"
  by (simp add: registerEntity_def entities_perform)

text \<open>C7, at a malformed announcement, on a device with one registered entity.\<close>

theorem registerEntity_invalid_payload_witness:
  "entitySchema malformed_entity = None \<and>
   snd (registerEntity malformed_entity temperature_device) = None \<and>
   entities (fst (registerEntity malformed_entity temperature_device)) =
     entities temperature_device"
proof -
  have invalid: "entitySchema malformed_entity = None"
    by (simp add: malformed_entity_def entitySchema_def entityConfigSchema_def)
  show ?thesis
    using registerEntity_invalid_payload [OF invalid, of temperature_device] invalid
    by (simp add: entities_perform)
qed

text \<open>
  C8. After \<^verbatim>\<open>registerEntity\<close> of a payload that passes the schema, whether it then raises
  or not, the lookup by the object identifier of the entity returns the parsed data, stored
  with the payload itself; and after a further registration under the same object identifier
  the lookup returns the later entry, in the place of the earlier one.
\<close>

theorem registerEntity_lookup:
  assumes "entitySchema raw = Some parsed"
  shows "map_option data (map_of (entities (fst (registerEntity raw s))) (objectId (config parsed))) =
       Some parsed \<and>
     map_of (entities (fst (registerEntity raw s))) (objectId (config parsed)) =
       Some \<lparr>data = parsed, original = raw\<rparr> \<and>
     (entitySchema raw' = Some parsed' \<and> objectId (config parsed') = objectId (config parsed) \<longrightarrow>
        map_of (entities (fst (registerEntity raw' (fst (registerEntity raw s)))))
            (objectId (config parsed)) =
          Some \<lparr>data = parsed', original = raw'\<rparr> \<and>
        map fst (entities (fst (registerEntity raw' (fst (registerEntity raw s))))) =
          map fst (entities (fst (registerEntity raw s))))"
proof -
  let ?s1 = "fst (registerEntity raw s)"
  have first: "map_of (entities ?s1) (objectId (config parsed)) =
      Some \<lparr>data = parsed, original = raw\<rparr>"
    using assms by (simp add: entities_registerEntity update_conv')
  have again: "map_of (entities (fst (registerEntity raw' ?s1))) (objectId (config parsed)) =
        Some \<lparr>data = parsed', original = raw'\<rparr> \<and>
      map fst (entities (fst (registerEntity raw' ?s1))) = map fst (entities ?s1)"
    if "entitySchema raw' = Some parsed'"
      and "objectId (config parsed') = objectId (config parsed)"
  proof -
    have "objectId (config parsed) \<in> fst ` set (entities ?s1)"
      using map_of_SomeD [OF first] by force
    then show ?thesis
      using that by (simp add: entities_registerEntity update_conv' update_keys)
  qed
  show ?thesis
    using first again by simp
qed

text \<open>C8, at two announcements with the same object identifier.\<close>

theorem registerEntity_lookup_witness:
  "entitySchema (example_entity 10 ''_temperature'' ''uid-a'' ''temperature'' (handle_methods 12)) =
     Some (example_parsed ''_temperature'' ''uid-a'' ''temperature'') \<and>
   entitySchema (example_entity 40 ''_temperature'' ''uid-b'' ''humidity'' (handle_methods 42)) =
     Some (example_parsed ''_temperature'' ''uid-b'' ''humidity'') \<and>
   map_option data (map_of (entities (fst (registerEntity
       (example_entity 10 ''_temperature'' ''uid-a'' ''temperature'' (handle_methods 12))
       example_device))) ''_temperature'') =
     Some (example_parsed ''_temperature'' ''uid-a'' ''temperature'') \<and>
   map_of (entities (fst (registerEntity
       (example_entity 40 ''_temperature'' ''uid-b'' ''humidity'' (handle_methods 42))
       (fst (registerEntity
          (example_entity 10 ''_temperature'' ''uid-a'' ''temperature'' (handle_methods 12))
          example_device))))) ''_temperature'' =
     Some \<lparr>data = example_parsed ''_temperature'' ''uid-b'' ''humidity'',
           original = example_entity 40 ''_temperature'' ''uid-b'' ''humidity'' (handle_methods 42)\<rparr>"
  using registerEntity_lookup [of
      "example_entity 10 ''_temperature'' ''uid-a'' ''temperature'' (handle_methods 12)"
      "example_parsed ''_temperature'' ''uid-a'' ''temperature''"
      example_device
      "example_entity 40 ''_temperature'' ''uid-b'' ''humidity'' (handle_methods 42)"
      "example_parsed ''_temperature'' ''uid-b'' ''humidity''"]
  by (simp add: entitySchema_example_handle) (simp add: example_parsed_def)

text \<open>
  C10. For a payload that passes the schema and whose \<^verbatim>\<open>connection\<close> is not an instance
  of \<^verbatim>\<open>Connection\<close>, \<^verbatim>\<open>registerEntity\<close> raises, and the registry it leaves behind
  holds the new entry.
\<close>

theorem registerEntity_not_atomic:
  assumes "entitySchema raw = Some parsed"
    and "\<not> instanceof_Connection (get_prop raw ''connection'')"
  shows "snd (registerEntity raw s) =
       Some (ErrorInstance ''Expected entity.connection to be instanceof Connection'') \<and>
     map_of (entities (fst (registerEntity raw s))) (objectId (config parsed)) =
       Some \<lparr>data = parsed, original = raw\<rparr>"
  using assms
  by (simp add: entities_registerEntity update_conv') (simp add: registerEntity_def Let_def)

text \<open>
  C10, at an announcement without a connection: it passes the schema, the registry has no
  entry for it before the call, the call raises, and the registry has the entry afterwards.
\<close>

theorem registerEntity_not_atomic_witness:
  "entitySchema (example_entity 10 ''_temperature'' ''uid-a'' ''temperature'' []) =
     Some (example_parsed ''_temperature'' ''uid-a'' ''temperature'') \<and>
   \<not> instanceof_Connection
       (get_prop (example_entity 10 ''_temperature'' ''uid-a'' ''temperature'' []) ''connection'') \<and>
   map_of (entities example_device) ''_temperature'' = None \<and>
   snd (registerEntity (example_entity 10 ''_temperature'' ''uid-a'' ''temperature'' [])
          example_device) =
     Some (ErrorInstance ''Expected entity.connection to be instanceof Connection'') \<and>
   map_of (entities (fst (registerEntity
       (example_entity 10 ''_temperature'' ''uid-a'' ''temperature'' []) example_device)))
       ''_temperature'' =
     Some \<lparr>data = example_parsed ''_temperature'' ''uid-a'' ''temperature'',
           original = example_entity 10 ''_temperature'' ''uid-a'' ''temperature'' []\<rparr>"
proof -
  let ?raw = "example_entity 10 ''_temperature'' ''uid-a'' ''temperature'' []"
  let ?parsed = "example_parsed ''_temperature'' ''uid-a'' ''temperature''"
  have valid: "entitySchema ?raw = Some ?parsed"
    by (rule entitySchema_example_plain)
  have no_connection: "\<not> instanceof_Connection (get_prop ?raw ''connection'')"
    by (simp add: example_entity_def)
  have empty: "map_of (entities example_device) ''_temperature'' = None"
    by (simp add: example_device_def new_device_def)
  have key: "objectId (config ?parsed) = ''_temperature''"
    by (simp add: example_parsed_def)
  show ?thesis
    using registerEntity_not_atomic [OF valid no_connection, of example_device]
      valid no_connection empty
    unfolding key by blast
qed

text \<open>
  C9. When the registry has no entry for an identifier: \<^verbatim>\<open>onEntityState\<close> raises the
  missing-entity error, the listener of the state event catches it and only logs, and no
  emission of a state event raises; whereas \<^verbatim>\<open>onSettings\<close>, reaching that identifier as
  a changed key of the driver settings, raises the missing-entity error to its caller.
\<close>

theorem missing_entity_handling:
  assumes "map_of (entities s) k = None"
  shows "onEntityState k state s = (s, Some (ErrorInstance (''Missing entity '' @ k))) \<and>
     entity_state_listener k state s =
       (perform [DebugEntity ''Failed to handle entity state event''] s, None) \<and>
     snd (entity_emit_state a state s) = None \<and>
     (k \<in> DRIVER_SETTINGS \<and>
      onSettings newSettings before s = (s1, None) \<longrightarrow>
        onSettings newSettings (before @ k # rest) s =
          (s1, Some (ErrorInstance (''Missing entity '' @ k))))"
proof -
  have dispatch: "onEntityState k state s = (s, Some (ErrorInstance (''Missing entity '' @ k)))"
    using assms by (simp add: onEntityState_def)
  have settings: "onSettings newSettings (before @ k # rest) s =
      (s1, Some (ErrorInstance (''Missing entity '' @ k)))"
    if member: "k \<in> DRIVER_SETTINGS"
      and completed: "onSettings newSettings before s = (s1, None)"
  proof -
    let ?s0 = "perform [Log ''EverythingPresenceOneDevice settings were changed''] s"
    from completed have loop: "onSettings_loop newSettings before ?s0 = (s1, None)"
      by (simp add: onSettings_def)
    have "entities s1 = entities ?s0"
      using entities_onSettings_loop [of newSettings before ?s0] loop by simp
    then have "map_of (entities s1) k = None"
      using assms by (simp add: entities_perform)
    then have "onSettings_loop newSettings (k # rest) s1 =
        (s1, Some (ErrorInstance (''Missing entity '' @ k)))"
      using member by simp
    then show ?thesis
      using onSettings_loop_append [OF loop, of "k # rest"] by (simp add: onSettings_def)
  qed
  show ?thesis
    using dispatch settings
    by (simp add: entity_state_listener_def entity_emit_state_def run_state_listeners_no_throw)
qed

text \<open>C9, on a device with an empty registry.\<close>

theorem missing_entity_handling_witness:
  "map_of (entities example_device) MMWAVE_SENSITIVITY = None \<and>
   onSettings (\<lambda>k. JNum (Finite 5)) [''ip''] example_device =
     (perform [Log ''EverythingPresenceOneDevice settings were changed'',
               Log ''Unknown changed setting key:''] example_device, None) \<and>
   entity_state_listener MMWAVE_SENSITIVITY (JObj 20 PlainObject [(''state'', JNum (Finite 5))])
       example_device =
     (perform [DebugEntity ''Failed to handle entity state event''] example_device, None) \<and>
   onSettings (\<lambda>k. JNum (Finite 5)) ([''ip''] @ MMWAVE_SENSITIVITY # [MMWAVE_LED]) example_device =
     (perform [Log ''EverythingPresenceOneDevice settings were changed'',
               Log ''Unknown changed setting key:''] example_device,
      Some (ErrorInstance (''Missing entity '' @ MMWAVE_SENSITIVITY)))"
proof -
  have empty: "map_of (entities example_device) MMWAVE_SENSITIVITY = None"
    by (simp add: example_device_def new_device_def)
  have before: "onSettings (\<lambda>k. JNum (Finite 5)) [''ip''] example_device =
     (perform [Log ''EverythingPresenceOneDevice settings were changed'',
               Log ''Unknown changed setting key:''] example_device, None)"
    by (simp add: onSettings_def perform_def DRIVER_SETTINGS_def MMWAVE_SENSITIVITY_def
        MMWAVE_ON_LATENCY_def MMWAVE_OFF_LATENCY_def MMWAVE_DISTANCE_def MMWAVE_LED_def
        ESP_32_STATUS_LED_def)
  have member: "MMWAVE_SENSITIVITY \<in> DRIVER_SETTINGS"
    by (simp add: DRIVER_SETTINGS_def)
  show ?thesis
    using missing_entity_handling [OF empty, of
        "JObj 20 PlainObject [(''state'', JNum (Finite 5))]" 0 "\<lambda>k. JNum (Finite 5)" "[''ip'']"
        "perform [Log ''EverythingPresenceOneDevice settings were changed'',
               Log ''Unknown changed setting key:''] example_device" "[MMWAVE_LED]"]
      empty before member
    by blast
qed

section \<open>The connection manager\<close>

lemma entities_call_removeAllListeners: "entities (call_removeAllListeners v s) = entities s"
  by (cases v) simp_all

lemma entities_revoke_entity_listeners:
  "entities (fst (revoke_entity_listeners es s)) = entities s"
  by (induction es s rule: revoke_entity_listeners.induct)
    (simp_all add: entities_call_removeAllListeners)

lemma entities_disconnect_teardown: "entities (fst (disconnect_teardown s)) = entities s"
  by (simp add: disconnect_teardown_def Let_def entities_revoke_entity_listeners entities_perform
      split: option.split)

lemma handle_listeners_call_removeAllListeners:
  "handle_listeners s a = [] \<Longrightarrow> handle_listeners (call_removeAllListeners v s) a = []"
  by (cases v) simp_all

lemma revoke_entity_listeners_keeps_empty:
  "handle_listeners s a = [] \<Longrightarrow> handle_listeners (fst (revoke_entity_listeners es s)) a = []"
  by (induction es s rule: revoke_entity_listeners.induct)
    (simp_all add: handle_listeners_call_removeAllListeners)

lemma revoke_entity_listeners_empties:
  "snd (revoke_entity_listeners es s) = None \<Longrightarrow> (k, e) \<in> set es \<Longrightarrow>
     original e = JObj a c ps \<Longrightarrow> handle_listeners (fst (revoke_entity_listeners es s)) a = []"
proof (induction es s rule: revoke_entity_listeners.induct)
  case (1 s)
  then show ?case by simp
next
  case (2 k' e' rest s)
  from "2.prems"(1) have ok: "\<not> lacks_method (original e') ''removeAllListeners''"
    by (simp split: if_splits)
  show ?case
  proof (cases "(k, e) = (k', e')")
    case True
    then have "handle_listeners (call_removeAllListeners (original e') s) a = []"
      using "2.prems"(3) by simp
    then show ?thesis
      using ok by (simp add: revoke_entity_listeners_keeps_empty)
  next
    case False
    then have "(k, e) \<in> set rest"
      using "2.prems"(2) by auto
    then show ?thesis
      using "2.IH" [OF ok] "2.prems"(1,3) ok by simp
  qed
qed

lemma connect_body_eq:
  "connect_body who s =
     s\<lparr>this_client := Some (next_id s),
       connectPromise := Some (next_id s),
       clients := (clients s)(next_id s \<mapsto>
         \<lparr>options = client_options_of
                      \<lparr>host = formatHostname (store_host s), port = store_port s\<rparr>,
          listeners = [NewEntityListener, ErrorListener,
                       InitializedListener \<lparr>host = formatHostname (store_host s),
                                             port = store_port s\<rparr> (next_id s) (next_id s)]\<rparr>),
       promises := (promises s)(next_id s \<mapsto> \<lparr>pstate = Pending, follower = who, waiters = []\<rparr>),
       timers := (timers s)(next_id s \<mapsto> \<lparr>delay = CONNECT_TIMEOUT, rejects = next_id s\<rparr>),
       next_id := Suc (next_id s),
       effects := effects s @ [DebugClient ''connecting:'', ClientConnect (next_id s)]\<rparr>"
  by (simp add: connect_body_def Let_def client_on_def perform_def)

lemma handle_listeners_perform: "handle_listeners (perform es s) = handle_listeners s"
  by (simp add: perform_def)

lemma disconnect_teardown_empties:
  assumes "snd (disconnect_teardown s) = None" and "(k, e) \<in> set (entities s)"
    and "original e = JObj a c ps"
  shows "handle_listeners (fst (disconnect_teardown s)) a = []"
  using assms
  by (auto simp: disconnect_teardown_def Let_def entities_perform
      intro!: revoke_entity_listeners_empties split: option.splits)

lemma connected_device_eq:
  "entities connected_device =
     [(''_temperature'',
       \<lparr>data = example_parsed ''_temperature''
                 ''everything-presence-one-7083ccsensor_temperature'' ''temperature'',
        original = example_entity 10 ''_temperature''
                 ''everything-presence-one-7083ccsensor_temperature'' ''temperature''
                 (handle_methods 12)\<rparr>)] \<and>
   handle_listeners connected_device 10 = [''_temperature''] \<and>
   this_client connected_device = Some 0 \<and>
   connectPromise connected_device = Some 0 \<and>
   map_option pstate (promises connected_device 0) = Some Fulfilled \<and>
   disconnect_fault connected_device = None"
  apply (simp add: connected_device_def onInit_def connect_def disconnect_teardown_def
      example_device_def new_device_def perform_def disconnect_awaits_def connect_body_eq
      client_emit_def on_client_initialized_def settle_def Let_def)
  apply (simp add: registerEntity_def entitySchema_example_handle Let_def perform_def)
  apply (simp add: example_entity_def handle_methods_def lacks_method_def perform_def example_parsed_def)
  done

lemma call_removeAllListeners_fields:
  "this_client (call_removeAllListeners v s) = this_client s"
  "connectPromise (call_removeAllListeners v s) = connectPromise s"
  "clients (call_removeAllListeners v s) = clients s"
  "promises (call_removeAllListeners v s) = promises s"
  "timers (call_removeAllListeners v s) = timers s"
  "next_id (call_removeAllListeners v s) = next_id s"
  "store_host (call_removeAllListeners v s) = store_host s"
  "store_port (call_removeAllListeners v s) = store_port s"
  "disconnect_fault (call_removeAllListeners v s) = disconnect_fault s"
  "effects (call_removeAllListeners v s) = effects s"
  by (cases v; simp)+

lemma revoke_entity_listeners_fields:
  "this_client (fst (revoke_entity_listeners es s)) = this_client s"
  "connectPromise (fst (revoke_entity_listeners es s)) = connectPromise s"
  "clients (fst (revoke_entity_listeners es s)) = clients s"
  "promises (fst (revoke_entity_listeners es s)) = promises s"
  "timers (fst (revoke_entity_listeners es s)) = timers s"
  "next_id (fst (revoke_entity_listeners es s)) = next_id s"
  "store_host (fst (revoke_entity_listeners es s)) = store_host s"
  "store_port (fst (revoke_entity_listeners es s)) = store_port s"
  "disconnect_fault (fst (revoke_entity_listeners es s)) = disconnect_fault s"
  "effects (fst (revoke_entity_listeners es s)) = effects s"
  by (induction es s rule: revoke_entity_listeners.induct;
      simp add: call_removeAllListeners_fields)+

lemma snd_revoke_entity_listeners:
  "snd (revoke_entity_listeners es s) = None \<longleftrightarrow>
     (\<forall>(k, e) \<in> set es. \<not> lacks_method (original e) ''removeAllListeners'')"
  by (induction es s rule: revoke_entity_listeners.induct) simp_all

lemma snd_disconnect_teardown:
  "snd (disconnect_teardown s) = None \<longleftrightarrow>
     (\<forall>(k, e) \<in> set (entities s). \<not> lacks_method (original e) ''removeAllListeners'')"
  by (simp add: disconnect_teardown_def Let_def snd_revoke_entity_listeners entities_perform
      split: option.split)

lemma disconnect_teardown_fields:
  "this_client (fst (disconnect_teardown s)) = this_client s"
  "connectPromise (fst (disconnect_teardown s)) = connectPromise s"
  "promises (fst (disconnect_teardown s)) = promises s"
  "timers (fst (disconnect_teardown s)) = timers s"
  "next_id (fst (disconnect_teardown s)) = next_id s"
  "store_host (fst (disconnect_teardown s)) = store_host s"
  "store_port (fst (disconnect_teardown s)) = store_port s"
  "disconnect_fault (fst (disconnect_teardown s)) = disconnect_fault s"
  by (simp_all add: disconnect_teardown_def Let_def revoke_entity_listeners_fields perform_def
      split: option.split)

lemma disconnect_awaits_teardown:
  "disconnect_awaits (fst (disconnect_teardown s)) = disconnect_awaits s"
  by (simp add: disconnect_awaits_def disconnect_teardown_fields split: option.split)

lemma effects_disconnect_teardown:
  "prefix (effects s) (effects (fst (disconnect_teardown s)))"
  by (simp add: disconnect_teardown_def Let_def revoke_entity_listeners_fields perform_def
      split: option.split)

lemma connect_body_below:
  "i < next_id s \<Longrightarrow> promises (connect_body who s) i = promises s i"
  "i < next_id s \<Longrightarrow> timers (connect_body who s) i = timers s i"
  "i < next_id s \<Longrightarrow> clients (connect_body who s) i = clients s i"
  "next_id (connect_body who s) = Suc (next_id s)"
  "prefix (effects s) (effects (connect_body who s))"
  by (simp_all add: connect_body_eq)

lemma resume_waiters_below:
  "i < next_id s \<Longrightarrow>
     promises (resume_waiters ws s) i = promises s i \<and>
     timers (resume_waiters ws s) i = timers s i \<and>
     clients (resume_waiters ws s) i = clients s i \<and>
     next_id s \<le> next_id (resume_waiters ws s)"
proof (induction ws s rule: resume_waiters.induct)
  case (1 s)
  then show ?case by simp
next
  case (2 who ws s)
  have "i < next_id (connect_body who s)"
    using "2.prems" by (simp add: connect_body_below)
  from "2.IH" [OF this] show ?case
    using "2.prems" by (simp add: connect_body_below)
next
  case (3 ws s)
  then show ?case by simp
qed

lemma effects_resume_waiters: "prefix (effects s) (effects (resume_waiters ws s))"
proof (induction ws s rule: resume_waiters.induct)
  case (2 who ws s)
  then show ?case
    using connect_body_below(5) [of s who] by (auto intro: prefix_order.trans)
qed simp_all

lemma effects_connect_rejected:
  "effects (connect_rejected who err s) =
     effects s @ (case who of
        FromOnInit \<Rightarrow> [LogError ''EverythingPresenceOneDevice failed to connect'']
      | FromErrorListener \<Rightarrow> [Log ''Could not re-connect after error'',
                               SetUnavailable (homey_translate ''error.unavailable'')])"
  by (cases who) (simp_all add: perform_def)

lemma connect_rejected_fields:
  "promises (connect_rejected who err s) = promises s"
  "timers (connect_rejected who err s) = timers s"
  "next_id (connect_rejected who err s) = next_id s"
  by (cases who; simp add: perform_def)+

lemma settle_pending:
  assumes "promises s p = Some pr" and "pstate pr = Pending" and "p < next_id s"
  shows "promises (settle p outcome s) p = Some (pr\<lparr>pstate := outcome, waiters := []\<rparr>)"
    and "t < next_id s \<Longrightarrow> timers (settle p outcome s) t = timers s t"
    and "outcome = Rejected err \<Longrightarrow>
      prefix (effects (connect_rejected (follower pr) err s)) (effects (settle p outcome s))"
    and "outcome = Fulfilled \<Longrightarrow> prefix (effects s) (effects (settle p outcome s))"
proof -
  let ?s1 = "s\<lparr>promises := (promises s)(p \<mapsto> pr\<lparr>pstate := outcome, waiters := []\<rparr>)\<rparr>"
  let ?s2 = "case outcome of Rejected err \<Rightarrow> connect_rejected (follower pr) err ?s1 | _ \<Rightarrow> ?s1"
  have eq: "settle p outcome s = resume_waiters (waiters pr) ?s2"
    using assms(1,2) by (simp add: settle_def Let_def)
  have fields: "next_id ?s2 = next_id s" "timers ?s2 = timers s"
    "promises ?s2 = (promises s)(p \<mapsto> pr\<lparr>pstate := outcome, waiters := []\<rparr>)"
    by (cases outcome; simp add: connect_rejected_fields)+
  show "promises (settle p outcome s) p = Some (pr\<lparr>pstate := outcome, waiters := []\<rparr>)"
    using resume_waiters_below [of p ?s2 "waiters pr"] assms(3) by (simp add: eq fields)
  show "timers (settle p outcome s) t = timers s t" if "t < next_id s"
    using resume_waiters_below [of t ?s2 "waiters pr"] that by (simp add: eq fields)
  show "prefix (effects (connect_rejected (follower pr) err s)) (effects (settle p outcome s))"
    if "outcome = Rejected err"
  proof -
    have "effects ?s2 = effects (connect_rejected (follower pr) err s)"
      using that by (simp add: effects_connect_rejected)
    then show ?thesis
      using effects_resume_waiters [of ?s2 "waiters pr"] by (simp add: eq)
  qed
  show "prefix (effects s) (effects (settle p outcome s))" if "outcome = Fulfilled"
  proof -
    have "effects ?s2 = effects s"
      using that by simp
    then show ?thesis
      using effects_resume_waiters [of ?s2 "waiters pr"] by (simp add: eq)
  qed
qed

lemma connected_device_teardown:
  "snd (disconnect_teardown connected_device) = None"
  by (simp add: snd_disconnect_teardown connected_device_eq example_entity_def
      handle_methods_def lacks_method_def)

lemma connect_eq:
  "connect who s =
     (case snd (disconnect_teardown s) of
        Some err \<Rightarrow> connect_rejected who err (fst (disconnect_teardown s))
      | None \<Rightarrow>
          (case disconnect_awaits s of
             Some p \<Rightarrow> add_waiter p (ResumeConnect who) (fst (disconnect_teardown s))
           | None \<Rightarrow> connect_body who (fst (disconnect_teardown s))))"
proof -
  obtain s1 r where teardown: "disconnect_teardown s = (s1, r)"
    by (cases "disconnect_teardown s")
  then have "disconnect_awaits s1 = disconnect_awaits s"
    using disconnect_awaits_teardown [of s] by simp
  then show ?thesis
    by (simp add: connect_def teardown split: option.split)
qed

lemma settle_timers: "t < next_id s \<Longrightarrow> timers (settle p outcome s) t = timers s t"
proof (cases "promises s p")
  case None
  then show ?thesis by (simp add: settle_def)
next
  case (Some pr)
  assume below: "t < next_id s"
  show ?thesis
  proof (cases "pstate pr = Pending")
    case True
    let ?s1 = "s\<lparr>promises := (promises s)(p \<mapsto> pr\<lparr>pstate := outcome, waiters := []\<rparr>)\<rparr>"
    let ?s2 = "case outcome of Rejected err \<Rightarrow> connect_rejected (follower pr) err ?s1 | _ \<Rightarrow> ?s1"
    have eq: "settle p outcome s = resume_waiters (waiters pr) ?s2"
      using Some True by (simp add: settle_def Let_def)
    have fields: "next_id ?s2 = next_id s" "timers ?s2 = timers s"
      by (cases outcome; simp add: connect_rejected_fields)+
    show ?thesis
      using resume_waiters_below [of t ?s2 "waiters pr"] below by (simp add: eq fields)
  next
    case False
    then show ?thesis using Some by (simp add: settle_def)
  qed
qed

lemma snd_revoke_entity_listeners_state:
  "snd (revoke_entity_listeners xs s1) = snd (revoke_entity_listeners xs s2)"
proof (induction xs arbitrary: s1 s2)
  case Nil
  then show ?case by simp
next
  case (Cons x xs)
  then show ?case by (cases x) simp
qed

lemma snd_disconnect_teardown_perform:
  "snd (disconnect_teardown (perform es s)) = snd (disconnect_teardown s)"
  using snd_revoke_entity_listeners_state
  by (simp add: disconnect_teardown_def Let_def entities_perform split: option.split)

lemma disconnect_awaits_perform: "disconnect_awaits (perform es s) = disconnect_awaits s"
  by (simp add: disconnect_awaits_def perform_def split: option.split)

lemma next_id_perform: "next_id (perform es s) = next_id s"
  by (simp add: perform_def)

lemma connecting_device_eq:
  "connecting_device =
     example_device
       \<lparr>this_client := Some 0, connectPromise := Some 0,
        clients := [0 \<mapsto> \<lparr>options = client_options_of
                                 \<lparr>host = ''everything-presence-one-7083cc.local'',
                                  port = JNum (Finite 6053)\<rparr>,
                             listeners = [NewEntityListener, ErrorListener,
                               InitializedListener
                                 \<lparr>host = ''everything-presence-one-7083cc.local'',
                                  port = JNum (Finite 6053)\<rparr> 0 0]\<rparr>],
        promises := [0 \<mapsto> \<lparr>pstate = Pending, follower = FromOnInit, waiters = []\<rparr>],
        timers := [0 \<mapsto> \<lparr>delay = CONNECT_TIMEOUT, rejects = 0\<rparr>],
        next_id := 1,
        effects := [Log ''EverythingPresenceOneDevice has been initialized'',
                    DebugClient ''disconnect'', DebugClient ''connecting:'', ClientConnect 0]\<rparr>"
  by (simp add: connecting_device_def onInit_def connect_def disconnect_teardown_def
      example_device_def new_device_def perform_def disconnect_awaits_def connect_body_eq
      Let_def formatHostname_def endsWith_def)

lemma connecting_device_fields:
  "this_client connecting_device = Some 0"
  "next_id connecting_device = 1"
  "entities connecting_device = []"
  "timers connecting_device 0 = Some \<lparr>delay = CONNECT_TIMEOUT, rejects = 0\<rparr>"
  "promises connecting_device 0 = Some \<lparr>pstate = Pending, follower = FromOnInit, waiters = []\<rparr>"
  "connectPromise connecting_device = Some 0"
  "effects connecting_device =
     [Log ''EverythingPresenceOneDevice has been initialized'',
      DebugClient ''disconnect'', DebugClient ''connecting:'', ClientConnect 0]"
  by (simp_all add: connecting_device_eq example_device_def new_device_def)

lemma connected_device_fields:
  "next_id connected_device = 1"
  "disconnect_awaits connected_device = None"
  "snd (disconnect_teardown connected_device) = None"
proof -
  show "next_id connected_device = 1"
    apply (simp add: connected_device_def onInit_def connect_def disconnect_teardown_def
      example_device_def new_device_def perform_def disconnect_awaits_def connect_body_eq
      client_emit_def on_client_initialized_def settle_def Let_def)
    apply (simp add: registerEntity_def entitySchema_example_handle Let_def perform_def)
    apply (simp add: example_entity_def handle_methods_def lacks_method_def perform_def)
    done
  show "disconnect_awaits connected_device = None"
    using connected_device_eq by (auto simp: disconnect_awaits_def split: option.splits)
  show "snd (disconnect_teardown connected_device) = None"
    by (rule connected_device_teardown)
qed

lemma connected_device_client:
  "clients connected_device 0 =
     Some \<lparr>options = client_options_of \<lparr>host = ''everything-presence-one-7083cc.local'',
                                         port = JNum (Finite 6053)\<rparr>,
           listeners = [NewEntityListener, ErrorListener,
             InitializedListener \<lparr>host = ''everything-presence-one-7083cc.local'',
                                   port = JNum (Finite 6053)\<rparr> 0 0]\<rparr>"
  apply (simp add: connected_device_def onInit_def connect_def disconnect_teardown_def
      example_device_def new_device_def perform_def disconnect_awaits_def connect_body_eq
      client_emit_def on_client_initialized_def settle_def Let_def formatHostname_def endsWith_def)
  apply (simp add: registerEntity_def entitySchema_example_handle Let_def perform_def)
  apply (simp add: example_entity_def handle_methods_def lacks_method_def perform_def)
  done

lemma registerEntity_without_connection:
  "entitySchema raw = Some parsed \<Longrightarrow> \<not> instanceof_Connection (get_prop raw ''connection'') \<Longrightarrow>
     snd (registerEntity raw s) =
       Some (ErrorInstance ''Expected entity.connection to be instanceof Connection'')"
  by (simp add: registerEntity_def Let_def)

lemma broken_device_fields:
  "entities broken_device =
     entities connected_device @
     [(''_illuminance'',
       \<lparr>data = example_parsed ''_illuminance''
                 ''everything-presence-one-7083ccsensor_illuminance'' ''illuminance'',
        original = example_entity 30 ''_illuminance''
                 ''everything-presence-one-7083ccsensor_illuminance'' ''illuminance'' []\<rparr>)]"
  "snd (disconnect_teardown broken_device) =
     Some (ErrorInstance ''Expected entity.removeAllListeners to be a function'')"
proof -
  let ?raw = "example_entity 30 ''_illuminance''
      ''everything-presence-one-7083ccsensor_illuminance'' ''illuminance'' []"
  have "\<not> instanceof_Connection (get_prop ?raw ''connection'')"
    by (simp add: example_entity_def)
  then have "snd (registerEntity ?raw connected_device) \<noteq> None"
    by (simp add: registerEntity_without_connection [OF entitySchema_example_plain])
  then have emit: "client_emit 0 (NewEntity ?raw) connected_device =
      registerEntity ?raw connected_device"
    by (auto simp: client_emit_def connected_device_client split: prod.splits option.splits)
  show registry: "entities broken_device =
     entities connected_device @
     [(''_illuminance'',
       \<lparr>data = example_parsed ''_illuminance''
                 ''everything-presence-one-7083ccsensor_illuminance'' ''illuminance'',
        original = ?raw\<rparr>)]"
    using connected_device_eq
    by (simp add: broken_device_def emit entities_registerEntity [OF entitySchema_example_plain])
      (simp add: example_parsed_def)
  show "snd (disconnect_teardown broken_device) =
     Some (ErrorInstance ''Expected entity.removeAllListeners to be a function'')"
    using connected_device_eq
    by (simp add: disconnect_teardown_def Let_def entities_perform registry
        split: option.split)
      (simp add: example_entity_def handle_methods_def lacks_method_def)
qed

text \<open>
  C1, as the code has it. \<^verbatim>\<open>disconnect\<close> never changes the registry: no entry is
  removed, whether the teardown raises or not. When the teardown does not raise, every handle
  in the registry is left without listeners, so that a state event on such a handle runs no
  handler and changes nothing.
\<close>

theorem disconnect_keeps_registry:
  "entities (fst (disconnect_teardown s)) = entities s \<and>
   (snd (disconnect_teardown s) = None \<longrightarrow>
      (\<forall>(k, e) \<in> set (entities s). \<forall>a c ps. original e = JObj a c ps \<longrightarrow>
         handle_listeners (fst (disconnect_teardown s)) a = [] \<and>
         entity_emit_state a state (fst (disconnect_teardown s)) =
           (fst (disconnect_teardown s), None)))"
  using disconnect_teardown_empties [of s]
  by (auto simp: entities_disconnect_teardown entity_emit_state_def)

text \<open>
  C1, as amended, on the connected example device: the handle of its temperature entity has
  a state listener before the teardown and none after it.
\<close>

theorem disconnect_keeps_registry_witness:
  "handle_listeners connected_device 10 = [''_temperature''] \<and>
   snd (disconnect_teardown connected_device) = None \<and>
   entities (fst (disconnect_teardown connected_device)) = entities connected_device \<and>
   handle_listeners (fst (disconnect_teardown connected_device)) 10 = [] \<and>
   entity_emit_state 10 (example_state (JNum (Finite 21.5)))
       (fst (disconnect_teardown connected_device)) =
     (fst (disconnect_teardown connected_device), None)"
  using disconnect_keeps_registry [of connected_device "example_state (JNum (Finite 21.5))"]
    connected_device_teardown connected_device_eq
  by (simp add: example_entity_def)

text \<open>
  C1, as the claim states it, fails: on the connected example device \<^verbatim>\<open>disconnect\<close>
  completes (the teardown does not raise and there is no pending promise to wait for), and
  the registry still holds the temperature entity.
\<close>

theorem disconnect_registry_counterexample:
  "snd (disconnect_teardown connected_device) = None \<and>
   disconnect_awaits (fst (disconnect_teardown connected_device)) = None \<and>
   map fst (entities (fst (disconnect_teardown connected_device))) = [''_temperature''] \<and>
   entities (fst (disconnect_teardown connected_device)) \<noteq> []"
proof -
  have "disconnect_awaits connected_device = None"
    using connected_device_eq
    by (auto simp: disconnect_awaits_def split: option.splits)
  then show ?thesis
    using connected_device_teardown connected_device_eq
    by (simp add: disconnect_awaits_teardown entities_disconnect_teardown)
qed

text \<open>
  C2, as the code has it. \<^verbatim>\<open>connect\<close>, once its \<^verbatim>\<open>disconnect\<close> has completed, makes a
  client of the stored host and port with fixed options and opens it: the subscription to
  states is on, the subscriptions to logs and to BLE advertisements and the device
  information are off, and the reconnection of the transport is on, at an interval of 30000.
  A call whose teardown does not raise and that has no pending promise to wait for does so
  at once.
\<close>

theorem connect_client_options:
  "this_client (connect_body who s) = Some (next_id s) \<and>
   map_option options (clients (connect_body who s) (next_id s)) =
     Some (client_options_of \<lparr>host = formatHostname (store_host s), port = store_port s\<rparr>) \<and>
   ClientConnect (next_id s) \<in> set (effects (connect_body who s)) \<and>
   initializeSubscribeStates (client_options_of addressProps) \<and>
   \<not> initializeSubscribeLogs (client_options_of addressProps) \<and>
   \<not> initializeSubscribeBLEAdvertisements (client_options_of addressProps) \<and>
   \<not> initializeDeviceInfo (client_options_of addressProps) \<and>
   reconnect (client_options_of addressProps) \<and>
   reconnectInterval (client_options_of addressProps) = 30000 \<and>
   (snd (disconnect_teardown s) = None \<and> disconnect_awaits s = None \<longrightarrow>
      this_client (connect who s) = Some (next_id s) \<and>
      map_option options (clients (connect who s) (next_id s)) =
        Some (client_options_of \<lparr>host = formatHostname (store_host s), port = store_port s\<rparr>) \<and>
      ClientConnect (next_id s) \<in> set (effects (connect who s)))"
proof -
  have body: "this_client (connect_body who s') = Some (next_id s') \<and>
      map_option options (clients (connect_body who s') (next_id s')) =
        Some (client_options_of \<lparr>host = formatHostname (store_host s'), port = store_port s'\<rparr>) \<and>
      ClientConnect (next_id s') \<in> set (effects (connect_body who s'))" for s'
    by (simp add: connect_body_eq)
  have call: "connect who s = connect_body who (fst (disconnect_teardown s))"
    if "snd (disconnect_teardown s) = None" and "disconnect_awaits s = None"
    using that by (simp add: connect_eq)
  show ?thesis
    using body [of s] body [of "fst (disconnect_teardown s)"] call
    by (simp add: client_options_of_def disconnect_teardown_fields)
qed

text \<open>C2, as amended, for the first \<^verbatim>\<open>connect\<close> of the example device.\<close>

theorem connect_client_options_witness:
  "snd (disconnect_teardown example_device) = None \<and>
   disconnect_awaits example_device = None \<and>
   this_client (connect FromOnInit example_device) = Some 0 \<and>
   map_option options (clients (connect FromOnInit example_device) 0) =
     Some (client_options_of \<lparr>host = ''everything-presence-one-7083cc.local'',
                              port = JNum (Finite 6053)\<rparr>) \<and>
   ClientConnect 0 \<in> set (effects (connect FromOnInit example_device))"
proof -
  have ok: "snd (disconnect_teardown example_device) = None"
    by (simp add: snd_disconnect_teardown example_device_def new_device_def)
  have no_wait: "disconnect_awaits example_device = None"
    by (simp add: disconnect_awaits_def example_device_def new_device_def)
  have fresh: "next_id example_device = 0"
    by (simp add: example_device_def new_device_def)
  have address: "formatHostname (store_host example_device) =
      ''everything-presence-one-7083cc.local''" "store_port example_device = JNum (Finite 6053)"
    by (simp_all add: example_device_def new_device_def formatHostname_def endsWith_def)
  show ?thesis
    using connect_client_options [of FromOnInit example_device "\<lparr>host = [], port = JNull\<rparr>"]
      ok no_wait
    by (simp add: fresh address)
qed

text \<open>
  C2, as the claim states it, fails: the client that the first \<^verbatim>\<open>connect\<close> of the example
  device makes has \<^verbatim>\<open>reconnect\<close> set.
\<close>

theorem connect_reconnect_counterexample:
  "this_client (connect FromOnInit example_device) = Some 0 \<and>
   map_option (\<lambda>cl. reconnect (options cl)) (clients (connect FromOnInit example_device) 0) =
     Some True \<and>
   map_option (\<lambda>cl. reconnectInterval (options cl))
       (clients (connect FromOnInit example_device) 0) = Some 30000"
  by (simp add: connect_def disconnect_teardown_def example_device_def new_device_def
      perform_def disconnect_awaits_def connect_body_eq client_options_of_def Let_def)

lemma connect_body_attempt:
  "promises (connect_body who s) (next_id s) =
     Some \<lparr>pstate = Pending, follower = who, waiters = []\<rparr>"
  "timers (connect_body who s) (next_id s) =
     Some \<lparr>delay = CONNECT_TIMEOUT, rejects = next_id s\<rparr>"
  "map_option options (clients (connect_body who s) (next_id s)) =
     Some (client_options_of \<lparr>host = formatHostname (store_host s), port = store_port s\<rparr>)"
  "ClientConnect (next_id s) \<in> set (effects (connect_body who s))"
  by (simp_all add: connect_body_eq)

lemma resume_waiters_attempt:
  "ResumeConnect who \<in> set ws \<Longrightarrow>
     \<exists>n. next_id s \<le> n \<and> n < next_id (resume_waiters ws s) \<and>
         promises (resume_waiters ws s) n =
           Some \<lparr>pstate = Pending, follower = who, waiters = []\<rparr> \<and>
         timers (resume_waiters ws s) n = Some \<lparr>delay = CONNECT_TIMEOUT, rejects = n\<rparr> \<and>
         ClientConnect n \<in> set (effects (resume_waiters ws s))"
proof (induction ws s rule: resume_waiters.induct)
  case (1 s)
  then show ?case by simp
next
  case (2 who' ws s)
  let ?s1 = "connect_body who' s"
  show ?case
  proof (cases "who' = who")
    case True
    have below: "next_id s < next_id ?s1"
      by (simp add: connect_body_below(4))
    have kept: "promises (resume_waiters ws ?s1) (next_id s) = promises ?s1 (next_id s)"
      "timers (resume_waiters ws ?s1) (next_id s) = timers ?s1 (next_id s)"
      "next_id ?s1 \<le> next_id (resume_waiters ws ?s1)"
      using resume_waiters_below [OF below, of ws] by simp_all
    have "ClientConnect (next_id s) \<in> set (effects (resume_waiters ws ?s1))"
      using effects_resume_waiters [of ?s1 ws] connect_body_attempt(4) [of s who']
      by (auto dest: set_mono_prefix)
    then have "next_id s \<le> next_id s \<and> next_id s < next_id (resume_waiters ws ?s1) \<and>
        promises (resume_waiters ws ?s1) (next_id s) =
          Some \<lparr>pstate = Pending, follower = who, waiters = []\<rparr> \<and>
        timers (resume_waiters ws ?s1) (next_id s) =
          Some \<lparr>delay = CONNECT_TIMEOUT, rejects = next_id s\<rparr> \<and>
        ClientConnect (next_id s) \<in> set (effects (resume_waiters ws ?s1))"
      using kept below True by (simp add: connect_body_attempt)
    then show ?thesis
      by (simp only: resume_waiters.simps) (rule exI)
  next
    case False
    then have "ResumeConnect who \<in> set ws"
      using "2.prems" by simp
    from "2.IH" [OF this] obtain n where
      "next_id ?s1 \<le> n \<and> n < next_id (resume_waiters ws ?s1) \<and>
        promises (resume_waiters ws ?s1) n =
          Some \<lparr>pstate = Pending, follower = who, waiters = []\<rparr> \<and>
        timers (resume_waiters ws ?s1) n = Some \<lparr>delay = CONNECT_TIMEOUT, rejects = n\<rparr> \<and>
        ClientConnect n \<in> set (effects (resume_waiters ws ?s1))"
      by blast
    then have "next_id s \<le> n \<and> n < next_id (resume_waiters ws ?s1) \<and>
        promises (resume_waiters ws ?s1) n =
          Some \<lparr>pstate = Pending, follower = who, waiters = []\<rparr> \<and>
        timers (resume_waiters ws ?s1) n = Some \<lparr>delay = CONNECT_TIMEOUT, rejects = n\<rparr> \<and>
        ClientConnect n \<in> set (effects (resume_waiters ws ?s1))"
      by (simp add: connect_body_below(4))
    then show ?thesis
      by (simp only: resume_waiters.simps) (rule exI)
  qed
next
  case (3 ws s)
  then show ?case by simp
qed

lemma settle_resumes_attempt:
  assumes "promises s q = Some pr" and "pstate pr = Pending"
    and "ResumeConnect who \<in> set (waiters pr)"
  shows "\<exists>n. next_id s \<le> n \<and> n < next_id (settle q outcome s) \<and>
         promises (settle q outcome s) n =
           Some \<lparr>pstate = Pending, follower = who, waiters = []\<rparr> \<and>
         timers (settle q outcome s) n = Some \<lparr>delay = CONNECT_TIMEOUT, rejects = n\<rparr> \<and>
         ClientConnect n \<in> set (effects (settle q outcome s))"
proof -
  let ?s1 = "s\<lparr>promises := (promises s)(q \<mapsto> pr\<lparr>pstate := outcome, waiters := []\<rparr>)\<rparr>"
  let ?s2 = "case outcome of Rejected err \<Rightarrow> connect_rejected (follower pr) err ?s1 | _ \<Rightarrow> ?s1"
  have eq: "settle q outcome s = resume_waiters (waiters pr) ?s2"
    using assms(1,2) by (simp add: settle_def Let_def)
  have fresh: "next_id ?s2 = next_id s"
    by (cases outcome; simp add: connect_rejected_fields)
  show ?thesis
    using resume_waiters_attempt [OF assms(3), of ?s2] by (simp add: eq fresh)
qed

lemma disconnect_awaits_Some:
  "disconnect_awaits s = Some p \<Longrightarrow> \<exists>pr. promises s p = Some pr \<and> pstate pr = Pending"
  by (auto simp: disconnect_awaits_def split: option.splits if_splits)

text \<open>
  C3. An error of the session whose message contains
  \<^verbatim>\<open>Bad format: Encryption expected\<close> marks the device unavailable with the reason for
  encryption and does nothing else. Every other error calls \<^verbatim>\<open>connect\<close>: when the teardown
  raises, the device is marked unavailable with the generic reason; when an earlier promise
  is pending, the call is queued on that promise; otherwise a new attempt starts at once.
  Every attempt started for the error listener has a promise that the listener follows, and
  the rejection of such a promise marks the device unavailable with the generic reason.
  Whenever a pending promise with a queued call of the error listener settles, either way,
  the call goes on: an attempt for the error listener is started, with its client opened, its
  timer armed and its promise pending.
\<close>

theorem client_error_handling:
  "(str_includes (getErrorMessage error) ''Bad format: Encryption expected'' \<longrightarrow>
      on_client_error error s =
        perform [DebugClient ''error:'',
                 SetUnavailable (homey_translate ''error.unavailable_encrypted'')] s) \<and>
   (\<not> str_includes (getErrorMessage error) ''Bad format: Encryption expected'' \<longrightarrow>
      on_client_error error s = connect FromErrorListener (perform [DebugClient ''error:''] s) \<and>
      (snd (disconnect_teardown s) = Some err \<longrightarrow>
         on_client_error error s =
           perform [Log ''Could not re-connect after error'',
                    SetUnavailable (homey_translate ''error.unavailable'')]
             (fst (disconnect_teardown (perform [DebugClient ''error:''] s)))) \<and>
      (snd (disconnect_teardown s) = None \<and> disconnect_awaits s = Some p \<longrightarrow>
         on_client_error error s =
           add_waiter p (ResumeConnect FromErrorListener)
             (fst (disconnect_teardown (perform [DebugClient ''error:''] s))) \<and>
         (\<exists>pw. promises s p = Some pw \<and> pstate pw = Pending \<and>
            promises (on_client_error error s) p =
              Some (pw\<lparr>waiters := waiters pw @ [ResumeConnect FromErrorListener]\<rparr>))) \<and>
      (snd (disconnect_teardown s) = None \<and> disconnect_awaits s = None \<longrightarrow>
         on_client_error error s =
           connect_body FromErrorListener
             (fst (disconnect_teardown (perform [DebugClient ''error:''] s))) \<and>
         this_client (on_client_error error s) = Some (next_id s) \<and>
         promises (on_client_error error s) (next_id s) =
           Some \<lparr>pstate = Pending, follower = FromErrorListener, waiters = []\<rparr> \<and>
         timers (on_client_error error s) (next_id s) =
           Some \<lparr>delay = CONNECT_TIMEOUT, rejects = next_id s\<rparr>)) \<and>
   promises (connect_body FromErrorListener s') (next_id s') =
     Some \<lparr>pstate = Pending, follower = FromErrorListener, waiters = []\<rparr> \<and>
   (promises s' q = Some pr \<and> pstate pr = Pending \<and> follower pr = FromErrorListener \<and>
    q < next_id s' \<longrightarrow>
      promises (settle q (Rejected err') s') q =
        Some (pr\<lparr>pstate := Rejected err', waiters := []\<rparr>) \<and>
      prefix (effects s' @ [Log ''Could not re-connect after error'',
                            SetUnavailable (homey_translate ''error.unavailable'')])
        (effects (settle q (Rejected err') s'))) \<and>
   (promises s2 r = Some pr2 \<and> pstate pr2 = Pending \<and>
    ResumeConnect FromErrorListener \<in> set (waiters pr2) \<longrightarrow>
      (\<exists>n. next_id s2 \<le> n \<and> n < next_id (settle r outcome s2) \<and>
         promises (settle r outcome s2) n =
           Some \<lparr>pstate = Pending, follower = FromErrorListener, waiters = []\<rparr> \<and>
         timers (settle r outcome s2) n = Some \<lparr>delay = CONNECT_TIMEOUT, rejects = n\<rparr> \<and>
         ClientConnect n \<in> set (effects (settle r outcome s2))))"
proof -
  let ?s1 = "perform [DebugClient ''error:''] s"
  let ?s2 = "fst (disconnect_teardown ?s1)"
  have encrypted: "on_client_error error s =
      perform [DebugClient ''error:'',
               SetUnavailable (homey_translate ''error.unavailable_encrypted'')] s"
    if "str_includes (getErrorMessage error) ''Bad format: Encryption expected''"
    using that by (simp add: on_client_error_def perform_def)
  have other: "on_client_error error s = connect FromErrorListener ?s1"
    if "\<not> str_includes (getErrorMessage error) ''Bad format: Encryption expected''"
    using that by (simp add: on_client_error_def)
  have thrown: "connect FromErrorListener ?s1 =
      perform [Log ''Could not re-connect after error'',
               SetUnavailable (homey_translate ''error.unavailable'')] ?s2"
    if "snd (disconnect_teardown s) = Some err"
    using that by (simp add: connect_eq snd_disconnect_teardown_perform)
  have waiting: "connect FromErrorListener ?s1 = add_waiter p (ResumeConnect FromErrorListener) ?s2"
    if "snd (disconnect_teardown s) = None" and "disconnect_awaits s = Some p"
    using that
    by (simp add: connect_eq snd_disconnect_teardown_perform disconnect_awaits_perform)
  have queued: "\<exists>pw. promises s p = Some pw \<and> pstate pw = Pending \<and>
      promises (add_waiter p (ResumeConnect FromErrorListener) ?s2) p =
        Some (pw\<lparr>waiters := waiters pw @ [ResumeConnect FromErrorListener]\<rparr>)"
    if awaited: "disconnect_awaits s = Some p"
  proof -
    obtain pw where pw: "promises s p = Some pw" "pstate pw = Pending"
      using disconnect_awaits_Some [OF awaited] by blast
    have "promises ?s2 = promises s"
      by (simp add: disconnect_teardown_fields perform_def)
    then have "promises (add_waiter p (ResumeConnect FromErrorListener) ?s2) p =
        Some (pw\<lparr>waiters := waiters pw @ [ResumeConnect FromErrorListener]\<rparr>)"
      using pw(1) by (simp add: add_waiter_def)
    then show ?thesis
      using pw by blast
  qed
  have resumed: "\<exists>n. next_id s2 \<le> n \<and> n < next_id (settle r outcome s2) \<and>
         promises (settle r outcome s2) n =
           Some \<lparr>pstate = Pending, follower = FromErrorListener, waiters = []\<rparr> \<and>
         timers (settle r outcome s2) n = Some \<lparr>delay = CONNECT_TIMEOUT, rejects = n\<rparr> \<and>
         ClientConnect n \<in> set (effects (settle r outcome s2))"
    if "promises s2 r = Some pr2" and "pstate pr2 = Pending"
      and "ResumeConnect FromErrorListener \<in> set (waiters pr2)"
    using that by (rule settle_resumes_attempt)
  have attempt: "connect FromErrorListener ?s1 = connect_body FromErrorListener ?s2"
    if "snd (disconnect_teardown s) = None" and "disconnect_awaits s = None"
    using that
    by (simp add: connect_eq snd_disconnect_teardown_perform disconnect_awaits_perform)
  have fresh: "next_id ?s2 = next_id s"
    by (simp add: disconnect_teardown_fields next_id_perform)
  have body: "this_client (connect_body FromErrorListener ?s2) = Some (next_id s) \<and>
      promises (connect_body FromErrorListener ?s2) (next_id s) =
        Some \<lparr>pstate = Pending, follower = FromErrorListener, waiters = []\<rparr> \<and>
      timers (connect_body FromErrorListener ?s2) (next_id s) =
        Some \<lparr>delay = CONNECT_TIMEOUT, rejects = next_id s\<rparr>"
    by (simp add: connect_body_eq fresh)
  have created: "promises (connect_body FromErrorListener s') (next_id s') =
      Some \<lparr>pstate = Pending, follower = FromErrorListener, waiters = []\<rparr>"
    by (simp add: connect_body_eq)
  have rejected: "promises (settle q (Rejected err') s') q =
        Some (pr\<lparr>pstate := Rejected err', waiters := []\<rparr>) \<and>
      prefix (effects s' @ [Log ''Could not re-connect after error'',
                            SetUnavailable (homey_translate ''error.unavailable'')])
        (effects (settle q (Rejected err') s'))"
    if pending: "promises s' q = Some pr" "pstate pr = Pending"
      and reconnecting: "follower pr = FromErrorListener" and below: "q < next_id s'"
    using settle_pending(1) [OF pending below, of "Rejected err'"]
      settle_pending(3) [OF pending below refl, of err'] reconnecting
    by (simp add: effects_perform)
  show ?thesis
    using encrypted other thrown waiting queued attempt body created rejected resumed by simp
qed

text \<open>
  C3, for an encryption error and a connection reset on the connected example device, a
  connection reset on the device with an entity without methods, and a connection reset
  while the first attempt is pending: the call is queued on the first promise, the timeout
  of the first attempt starts the second attempt, for the error listener, and the rejection
  of the second attempt marks the device unavailable.
\<close>

theorem client_error_handling_witness:
  "on_client_error (ErrorInstance ''Bad format: Encryption expected'') connected_device =
     perform [DebugClient ''error:'',
              SetUnavailable (homey_translate ''error.unavailable_encrypted'')] connected_device \<and>
   this_client (on_client_error (ErrorInstance ''read ECONNRESET'') connected_device) = Some 1 \<and>
   promises (on_client_error (ErrorInstance ''read ECONNRESET'') connected_device) 1 =
     Some \<lparr>pstate = Pending, follower = FromErrorListener, waiters = []\<rparr> \<and>
   prefix (effects (on_client_error (ErrorInstance ''read ECONNRESET'') connected_device) @
             [Log ''Could not re-connect after error'',
              SetUnavailable (homey_translate ''error.unavailable'')])
     (effects (settle 1 (Rejected (ErrorInstance (homey_translate ''error.connect_timeout'')))
        (on_client_error (ErrorInstance ''read ECONNRESET'') connected_device))) \<and>
   on_client_error (ErrorInstance ''read ECONNRESET'') broken_device =
     perform [Log ''Could not re-connect after error'',
              SetUnavailable (homey_translate ''error.unavailable'')]
       (fst (disconnect_teardown (perform [DebugClient ''error:''] broken_device))) \<and>
   on_client_error (ErrorInstance ''read ECONNRESET'') connecting_device =
     add_waiter 0 (ResumeConnect FromErrorListener)
       (fst (disconnect_teardown (perform [DebugClient ''error:''] connecting_device))) \<and>
   promises (on_client_error (ErrorInstance ''read ECONNRESET'') connecting_device) 0 =
     Some \<lparr>pstate = Pending, follower = FromOnInit,
           waiters = [ResumeConnect FromErrorListener]\<rparr> \<and>
   promises (fire_timer 0 (on_client_error (ErrorInstance ''read ECONNRESET'') connecting_device))
       1 =
     Some \<lparr>pstate = Pending, follower = FromErrorListener, waiters = []\<rparr> \<and>
   timers (fire_timer 0 (on_client_error (ErrorInstance ''read ECONNRESET'') connecting_device))
       1 =
     Some \<lparr>delay = CONNECT_TIMEOUT, rejects = 1\<rparr> \<and>
   ClientConnect 1 \<in> set (effects (fire_timer 0
     (on_client_error (ErrorInstance ''read ECONNRESET'') connecting_device))) \<and>
   prefix (effects (fire_timer 0
             (on_client_error (ErrorInstance ''read ECONNRESET'') connecting_device)) @
             [Log ''Could not re-connect after error'',
              SetUnavailable (homey_translate ''error.unavailable'')])
     (effects (settle 1 (Rejected (ErrorInstance (homey_translate ''error.connect_timeout'')))
        (fire_timer 0
           (on_client_error (ErrorInstance ''read ECONNRESET'') connecting_device))))"
proof -
  let ?reset = "ErrorInstance ''read ECONNRESET''"
  let ?timeout = "ErrorInstance (homey_translate ''error.connect_timeout'')"
  let ?attempt = "\<lparr>pstate = Pending, follower = FromErrorListener, waiters = []\<rparr>"
  let ?s' = "on_client_error ?reset connected_device"
  have encrypted: "str_includes (getErrorMessage (ErrorInstance ''Bad format: Encryption expected''))
      ''Bad format: Encryption expected''"
    by simp
  have other: "\<not> str_includes (getErrorMessage ?reset) ''Bad format: Encryption expected''"
    by simp
  note first = client_error_handling [of "ErrorInstance ''Bad format: Encryption expected''"
      connected_device]
  note second = client_error_handling [of ?reset connected_device _ _ ?s' 1 ?attempt ?timeout]
  note third = client_error_handling [of ?reset broken_device
      "ErrorInstance ''Expected entity.removeAllListeners to be a function''"]
  note fourth = client_error_handling [of ?reset connecting_device _ 0]
  have reconnect: "?s' = connect_body FromErrorListener
        (fst (disconnect_teardown (perform [DebugClient ''error:''] connected_device))) \<and>
      this_client ?s' = Some (next_id connected_device) \<and>
      promises ?s' (next_id connected_device) = Some ?attempt"
    using second other connected_device_fields(2,3) by blast
  then have created: "this_client ?s' = Some 1" "promises ?s' 1 = Some ?attempt"
    unfolding connected_device_fields(1) by blast+
  have "next_id (connect_body FromErrorListener
        (fst (disconnect_teardown (perform [DebugClient ''error:''] connected_device)))) = 2"
    by (simp add: connect_body_below(4) disconnect_teardown_fields next_id_perform
        connected_device_fields(1))
  then have "next_id ?s' = 2"
    using reconnect by metis
  then have below: "1 < next_id ?s'"
    by simp
  have attempt: "pstate ?attempt = Pending" "follower ?attempt = FromErrorListener"
    by simp_all
  have rejected: "prefix (effects ?s' @ [Log ''Could not re-connect after error'',
        SetUnavailable (homey_translate ''error.unavailable'')])
      (effects (settle 1 (Rejected ?timeout) ?s'))"
    using second created(2) attempt below by blast
  have thrown: "on_client_error ?reset broken_device =
     perform [Log ''Could not re-connect after error'',
              SetUnavailable (homey_translate ''error.unavailable'')]
       (fst (disconnect_teardown (perform [DebugClient ''error:''] broken_device)))"
    using third other broken_device_fields(2) by blast
  have waits: "disconnect_awaits connecting_device = Some 0"
    "snd (disconnect_teardown connecting_device) = None"
    by (simp_all add: disconnect_awaits_def snd_disconnect_teardown connecting_device_fields)
  have waiting: "on_client_error ?reset connecting_device =
     add_waiter 0 (ResumeConnect FromErrorListener)
       (fst (disconnect_teardown (perform [DebugClient ''error:''] connecting_device)))"
    using fourth other waits by blast
  have permanent: "on_client_error (ErrorInstance ''Bad format: Encryption expected'')
      connected_device =
     perform [DebugClient ''error:'',
              SetUnavailable (homey_translate ''error.unavailable_encrypted'')] connected_device"
    using first encrypted by blast
  let ?queued = "on_client_error ?reset connecting_device"
  let ?cleared = "?queued\<lparr>timers := (timers ?queued)(0 := None)\<rparr>"
  let ?resumed = "fire_timer 0 ?queued"
  let ?first = "\<lparr>pstate = Pending, follower = FromOnInit,
      waiters = [ResumeConnect FromErrorListener]\<rparr>"
  have "\<exists>pw. promises connecting_device 0 = Some pw \<and> pstate pw = Pending \<and>
      promises ?queued 0 = Some (pw\<lparr>waiters := waiters pw @ [ResumeConnect FromErrorListener]\<rparr>)"
    using fourth other waits by blast
  then have queued: "promises ?queued 0 = Some ?first"
    by (auto simp: connecting_device_fields(5))
  have armed: "timers ?queued 0 = Some \<lparr>delay = CONNECT_TIMEOUT, rejects = 0\<rparr>"
    by (simp add: waiting add_waiter_def disconnect_teardown_fields perform_def
        connecting_device_fields(4))
  have fired: "?resumed = settle 0 (Rejected ?timeout) ?cleared"
    by (simp add: fire_timer_def armed)
  have "next_id ?queued = 1"
    by (simp add: waiting add_waiter_def disconnect_teardown_fields perform_def
        connecting_device_fields(2))
  then have fresh: "next_id ?cleared = 1"
    by simp
  have queued0: "promises ?cleared 0 = Some ?first"
    using queued by simp
  have "settle 0 (Rejected ?timeout) ?cleared =
      connect_body FromErrorListener
        (perform [LogError ''EverythingPresenceOneDevice failed to connect'']
           (?cleared\<lparr>promises := (promises ?cleared)(0 \<mapsto>
              ?first\<lparr>pstate := Rejected ?timeout, waiters := []\<rparr>)\<rparr>))"
    using queued0 by (simp add: settle_def Let_def)
  then have advanced: "next_id ?resumed = 2"
    using fresh by (simp add: fired connect_body_below(4) perform_def)
  note fifth = client_error_handling [of ?reset connecting_device
      "ErrorInstance ''Expected entity.removeAllListeners to be a function''" 0 ?resumed 1 ?attempt
      ?timeout ?cleared 0 ?first "Rejected ?timeout"]
  have waiter: "pstate ?first = Pending" "ResumeConnect FromErrorListener \<in> set (waiters ?first)"
    by simp_all
  have "\<exists>n. next_id ?cleared \<le> n \<and> n < next_id (settle 0 (Rejected ?timeout) ?cleared) \<and>
      promises (settle 0 (Rejected ?timeout) ?cleared) n = Some ?attempt \<and>
      timers (settle 0 (Rejected ?timeout) ?cleared) n = Some \<lparr>delay = CONNECT_TIMEOUT, rejects = n\<rparr> \<and>
      ClientConnect n \<in> set (effects (settle 0 (Rejected ?timeout) ?cleared))"
    using fifth queued0 waiter by blast
  then obtain n where n: "1 \<le> n" "n < 2" "promises ?resumed n = Some ?attempt"
    "timers ?resumed n = Some \<lparr>delay = CONNECT_TIMEOUT, rejects = n\<rparr>"
    "ClientConnect n \<in> set (effects ?resumed)"
    using fresh advanced fired by auto
  have one: "n = 1"
    using n(1,2) by simp
  have resumed: "promises ?resumed 1 = Some ?attempt"
    "timers ?resumed 1 = Some \<lparr>delay = CONNECT_TIMEOUT, rejects = 1\<rparr>"
    "ClientConnect 1 \<in> set (effects ?resumed)"
    using n(3,4,5) unfolding one by blast+
  have "1 < next_id ?resumed"
    using advanced by simp
  then have failed: "prefix (effects ?resumed @ [Log ''Could not re-connect after error'',
        SetUnavailable (homey_translate ''error.unavailable'')])
      (effects (settle 1 (Rejected ?timeout) ?resumed))"
    using fifth resumed(1) attempt by blast
  show ?thesis
    using permanent created rejected thrown waiting queued resumed failed by blast
qed

text \<open>
  C4. An attempt of \<^verbatim>\<open>connect\<close> arms a timer of 15000 milliseconds for its pending promise.
  When a timer fires while its promise is pending, the promise is rejected with the error of
  the connect timeout, the rejection handler of the caller runs, and the timer is gone. When
  the listener of \<^verbatim>\<open>initialized\<close> of an attempt runs, the timer of the attempt is cleared
  and its pending promise is fulfilled, and the timer firing afterwards changes nothing.
\<close>

theorem connect_attempt_timeout:
  "timers (connect_body who s) (next_id s) =
     Some \<lparr>delay = CONNECT_TIMEOUT, rejects = next_id s\<rparr> \<and>
   CONNECT_TIMEOUT = 15000 \<and>
   promises (connect_body who s) (next_id s) =
     Some \<lparr>pstate = Pending, follower = who, waiters = []\<rparr> \<and>
   client_emit (next_id s) Initialized (connect_body who s) =
     on_client_initialized \<lparr>host = formatHostname (store_host s), port = store_port s\<rparr>
       (next_id s) (next_id s) (connect_body who s) \<and>
   (timers s t = Some tm \<and> promises s (rejects tm) = Some pr \<and> pstate pr = Pending \<and>
    t < next_id s \<and> rejects tm < next_id s \<longrightarrow>
      promises (fire_timer t s) (rejects tm) =
        Some (pr\<lparr>pstate := Rejected (ErrorInstance (homey_translate ''error.connect_timeout'')),
                 waiters := []\<rparr>) \<and>
      timers (fire_timer t s) t = None \<and>
      prefix (effects (connect_rejected (follower pr)
                (ErrorInstance (homey_translate ''error.connect_timeout'')) s))
        (effects (fire_timer t s))) \<and>
   (this_client s \<noteq> None \<and> t < next_id s \<and> p < next_id s \<longrightarrow>
      snd (on_client_initialized addressProps t p s) = None \<and>
      timers (fst (on_client_initialized addressProps t p s)) t = None \<and>
      fire_timer t (fst (on_client_initialized addressProps t p s)) =
        fst (on_client_initialized addressProps t p s) \<and>
      (promises s p = Some pr \<and> pstate pr = Pending \<longrightarrow>
         promises (fst (on_client_initialized addressProps t p s)) p =
           Some (pr\<lparr>pstate := Fulfilled, waiters := []\<rparr>)))"
proof -
  let ?timeout = "ErrorInstance (homey_translate ''error.connect_timeout'')"
  have attempt: "timers (connect_body who s) (next_id s) =
      Some \<lparr>delay = CONNECT_TIMEOUT, rejects = next_id s\<rparr> \<and>
    CONNECT_TIMEOUT = 15000 \<and>
    promises (connect_body who s) (next_id s) =
      Some \<lparr>pstate = Pending, follower = who, waiters = []\<rparr> \<and>
    client_emit (next_id s) Initialized (connect_body who s) =
      on_client_initialized \<lparr>host = formatHostname (store_host s), port = store_port s\<rparr>
        (next_id s) (next_id s) (connect_body who s)"
    by (simp add: connect_body_eq CONNECT_TIMEOUT_def client_emit_def
        split: prod.split option.split)
  have fired: "promises (fire_timer t s) (rejects tm) =
        Some (pr\<lparr>pstate := Rejected ?timeout, waiters := []\<rparr>) \<and>
      timers (fire_timer t s) t = None \<and>
      prefix (effects (connect_rejected (follower pr) ?timeout s)) (effects (fire_timer t s))"
    if "timers s t = Some tm" and "promises s (rejects tm) = Some pr" and "pstate pr = Pending"
      and "t < next_id s" and "rejects tm < next_id s"
  proof -
    let ?s1 = "s\<lparr>timers := (timers s)(t := None)\<rparr>"
    have eq: "fire_timer t s = settle (rejects tm) (Rejected ?timeout) ?s1"
      using that(1) by (simp add: fire_timer_def)
    have "effects (connect_rejected (follower pr) ?timeout ?s1) =
        effects (connect_rejected (follower pr) ?timeout s)"
      by (simp add: effects_connect_rejected)
    moreover have pending: "promises ?s1 (rejects tm) = Some pr"
      using that(2) by simp
    moreover have below: "rejects tm < next_id ?s1"
      using that(5) by simp
    ultimately show ?thesis
      using settle_pending(1) [OF pending that(3) below, of "Rejected ?timeout"]
        settle_pending(3) [OF pending that(3) below refl, of ?timeout]
        settle_timers [of t ?s1 "rejects tm" "Rejected ?timeout"] that(4)
      by (simp add: eq)
  qed
  have initialized: "snd (on_client_initialized addressProps t p s) = None \<and>
      timers (fst (on_client_initialized addressProps t p s)) t = None \<and>
      fire_timer t (fst (on_client_initialized addressProps t p s)) =
        fst (on_client_initialized addressProps t p s) \<and>
      (promises s p = Some pr \<and> pstate pr = Pending \<longrightarrow>
         promises (fst (on_client_initialized addressProps t p s)) p =
           Some (pr\<lparr>pstate := Fulfilled, waiters := []\<rparr>))"
    if connected: "this_client s \<noteq> None" and t_below: "t < next_id s"
      and p_below: "p < next_id s"
  proof -
    obtain c where c: "this_client s = Some c"
      using connected by auto
    let ?s3 = "perform [ListEntitiesService c, DnsLookup (host addressProps), SetAvailable]
        ((perform [DebugClient ''connected''] s)
           \<lparr>timers := (timers (perform [DebugClient ''connected''] s))(t := None)\<rparr>)"
    have eq: "on_client_initialized addressProps t p s = (settle p Fulfilled ?s3, None)"
      using c by (simp add: on_client_initialized_def Let_def perform_def)
    have fields: "next_id ?s3 = next_id s" "timers ?s3 t = None" "promises ?s3 = promises s"
      by (simp_all add: perform_def)
    have cleared: "timers (settle p Fulfilled ?s3) t = None"
      using settle_timers [of t ?s3 p Fulfilled] t_below by (simp add: fields)
    have "promises (settle p Fulfilled ?s3) p = Some (pr\<lparr>pstate := Fulfilled, waiters := []\<rparr>)"
      if "promises s p = Some pr" and "pstate pr = Pending"
    proof -
      have pending: "promises ?s3 p = Some pr"
        using that(1) by (simp add: fields)
      have below: "p < next_id ?s3"
        using p_below by (simp add: fields)
      show ?thesis
        by (rule settle_pending(1) [OF pending that(2) below])
    qed
    then show ?thesis
      using cleared by (simp add: eq fire_timer_def)
  qed
  show ?thesis
    using attempt fired initialized by blast
qed

text \<open>C4, for the first attempt of the example device.\<close>

theorem connect_attempt_timeout_witness:
  "timers connecting_device 0 = Some \<lparr>delay = 15000, rejects = 0\<rparr> \<and>
   promises connecting_device 0 = Some \<lparr>pstate = Pending, follower = FromOnInit, waiters = []\<rparr> \<and>
   promises (fire_timer 0 connecting_device) 0 =
     Some \<lparr>pstate = Rejected (ErrorInstance (homey_translate ''error.connect_timeout'')),
           follower = FromOnInit, waiters = []\<rparr> \<and>
   timers (fire_timer 0 connecting_device) 0 = None \<and>
   prefix (effects connecting_device @
             [LogError ''EverythingPresenceOneDevice failed to connect''])
     (effects (fire_timer 0 connecting_device)) \<and>
   timers (fst (on_client_initialized
       \<lparr>host = ''everything-presence-one-7083cc.local'', port = JNum (Finite 6053)\<rparr> 0 0
       connecting_device)) 0 = None \<and>
   promises (fst (on_client_initialized
       \<lparr>host = ''everything-presence-one-7083cc.local'', port = JNum (Finite 6053)\<rparr> 0 0
       connecting_device)) 0 =
     Some \<lparr>pstate = Fulfilled, follower = FromOnInit, waiters = []\<rparr> \<and>
   fire_timer 0 (fst (on_client_initialized
       \<lparr>host = ''everything-presence-one-7083cc.local'', port = JNum (Finite 6053)\<rparr> 0 0
       connecting_device)) =
     fst (on_client_initialized
       \<lparr>host = ''everything-presence-one-7083cc.local'', port = JNum (Finite 6053)\<rparr> 0 0
       connecting_device)"
  using connect_attempt_timeout [of FromOnInit connecting_device 0
      "\<lparr>delay = CONNECT_TIMEOUT, rejects = 0\<rparr>"
      "\<lparr>pstate = Pending, follower = FromOnInit, waiters = []\<rparr>" 0
      "\<lparr>host = ''everything-presence-one-7083cc.local'', port = JNum (Finite 6053)\<rparr>"]
  by (simp add: connecting_device_fields effects_perform)


end
